theory Spec2Isabelle
  imports Complex_Main "HOL-Library.Sublist" "HOL-Library.Char_ord" "HOL-Library.List_Lexorder"
begin

section \<open>Python values shared by the forecasting modules\<close>

text \<open>
  Strings are \<open>string\<close>; one \<open>char\<close> stands for one code point below 256, which covers
  every string literal of the modelled modules except the sign U+2265 of two error
  messages (written \<open>GE_SIGN\<close> below, as its UTF-8 bytes). Python's \<open>float\<close> is
  modelled by \<open>real\<close>, with NaN as a separate constructor where the code tests for it.

  An exception is a value of \<open>py_error\<close>; a function that may raise returns
  \<open>py_error + 'a\<close> with \<open>Inl\<close> for the raised exception. All constructors are subclasses
  of Python's \<open>Exception\<close>, so \<open>except Exception\<close> catches each of them.
\<close>

datatype py_error =
    ValueError string
  | RuntimeError string
  | ImportError string
  | KeyError string
  | LibraryError string
  | HTTPException nat string

text \<open>\<open>str(e)\<close>: the message for the plain exceptions, the quoted key for a KeyError,
  and \<open>"<status>: <detail>"\<close> for an HTTPException.\<close>

fun digit_char :: "nat \<Rightarrow> char" where
  "digit_char n = char_of (48 + n)"

fun show_nat_fuel :: "nat \<Rightarrow> nat \<Rightarrow> string" where
  "show_nat_fuel 0 n = [digit_char (n mod 10)]"
| "show_nat_fuel (Suc k) n =
     (if n < 10 then [digit_char n] else show_nat_fuel k (n div 10) @ [digit_char (n mod 10)])"

definition show_nat :: "nat \<Rightarrow> string" where
  "show_nat n = show_nat_fuel n n"

definition show_int :: "int \<Rightarrow> string" where
  "show_int i = (if i < 0 then CHR ''-'' # show_nat (nat (- i)) else show_nat (nat i))"

fun py_str :: "py_error \<Rightarrow> string" where
  "py_str (ValueError m) = m"
| "py_str (RuntimeError m) = m"
| "py_str (ImportError m) = m"
| "py_str (KeyError k) = [CHR 0x27] @ k @ [CHR 0x27]"
| "py_str (LibraryError m) = m"
| "py_str (HTTPException code detail) = show_nat code @ '': '' @ detail"

definition GE_SIGN :: string where
  "GE_SIGN = [CHR 0xE2, CHR 0x89, CHR 0xA5]"

text \<open>\<open>str.lower()\<close> and \<open>str.strip()\<close> on code points below 256: the upper-case letters
  are A-Z and U+00C0..U+00DE without the multiplication sign U+00D7; the white-space
  characters are TAB, LF, VT, FF, CR, U+001C..U+001F, SPACE, U+0085 and U+00A0.\<close>

definition py_lower_char :: "char \<Rightarrow> char" where
  "py_lower_char c =
     (let n = (of_char c :: nat)
      in if (65 \<le> n \<and> n \<le> 90) \<or> (192 \<le> n \<and> n \<le> 222 \<and> n \<noteq> 215)
         then char_of (n + 32) else c)"

definition py_lower :: "string \<Rightarrow> string" where
  "py_lower s = map py_lower_char s"

definition py_isspace :: "char \<Rightarrow> bool" where
  "py_isspace c =
     (let n = (of_char c :: nat)
      in (9 \<le> n \<and> n \<le> 13) \<or> (28 \<le> n \<and> n \<le> 32) \<or> n = 133 \<or> n = 160)"

definition py_strip :: "string \<Rightarrow> string" where
  "py_strip s = rev (dropWhile py_isspace (rev (dropWhile py_isspace s)))"

text \<open>\<open>d.get(k, default)\<close> on a dict literal, kept as an association list.\<close>

definition dict_get :: "('k \<times> 'v) list \<Rightarrow> 'k \<Rightarrow> 'v \<Rightarrow> 'v" where
  "dict_get d k dflt = (case map_of d k of Some v \<Rightarrow> v | None \<Rightarrow> dflt)"

section \<open>forecasting/model_selector.py\<close>

definition CATEGORY_TYPE_MAP :: "(string \<times> string) list" where
  "CATEGORY_TYPE_MAP =
     [(''cefixime'', ''antibiotic''),
      (''omeprazole'', ''gastro''),
      (''diclofenac sodium'', ''acute''),
      (''escitalopram'', ''chronic''),
      (''empagliflozin'', ''chronic''),
      (''dapagliflozin'', ''chronic''),
      (''sitagliptin'', ''chronic'')]"

definition TYPE_MODEL_MAP :: "(string \<times> string) list" where
  "TYPE_MODEL_MAP =
     [(''antibiotic'', ''sarimax''),
      (''gastro'', ''prophet''),
      (''acute'', ''xgboost''),
      (''chronic'', ''prophet''),
      (''other'', ''xgboost'')]"

definition TYPE_FALLBACK_MAP :: "(string \<times> string list) list" where
  "TYPE_FALLBACK_MAP =
     [(''antibiotic'', [''prophet'', ''xgboost'']),
      (''gastro'', [''hybrid'', ''xgboost'']),
      (''acute'', [''hybrid'', ''prophet'']),
      (''chronic'', [''sarimax'', ''xgboost'']),
      (''other'', [''prophet'', ''sarimax''])]"

definition get_category_type :: "string \<Rightarrow> string" where
  "get_category_type category =
     (if category = [] then ''other''
      else let cat_clean = py_strip (py_lower category)
           in dict_get CATEGORY_TYPE_MAP cat_clean ''other'')"

definition valid_models :: "string list" where
  "valid_models = [''prophet'', ''xgboost'', ''sarimax'', ''hybrid'']"

text \<open>The message of the ValueError ends with the rendering of a Python set, whose
  element order Python does not fix; the order of the source literal is used.\<close>

definition invalid_override_message :: "string \<Rightarrow> string" where
  "invalid_override_message override =
     ''Invalid model override '' @ [CHR 0x27] @ override @ [CHR 0x27] @
     ''. Choose from {'' @ [CHR 0x27] @ ''prophet'' @ [CHR 0x27] @ '', '' @
     [CHR 0x27] @ ''xgboost'' @ [CHR 0x27] @ '', '' @
     [CHR 0x27] @ ''sarimax'' @ [CHR 0x27] @ '', '' @
     [CHR 0x27] @ ''hybrid'' @ [CHR 0x27] @ ''}''"

definition select_model :: "string \<Rightarrow> string \<Rightarrow> py_error + string" where
  "select_model category override =
     (if override \<noteq> [] \<and> override \<noteq> ''auto'' then
        (if override \<notin> set valid_models
         then Inl (ValueError (invalid_override_message override))
         else Inr override)
      else let cat_type = get_category_type category
           in Inr (dict_get TYPE_MODEL_MAP cat_type ''xgboost''))"

definition get_fallback_list :: "string \<Rightarrow> string list" where
  "get_fallback_list category =
     (let cat_type = get_category_type category;
          defaults = [''prophet'', ''xgboost'']
      in dict_get TYPE_FALLBACK_MAP cat_type defaults)"

section \<open>forecasting/evaluator.py\<close>

text \<open>
  An entry of the \<open>actual\<close> list is \<open>None\<close>, a NaN or a number; \<open>predicted\<close> holds numbers.
  \<open>round(x, 2)\<close> and the format \<open>.2f\<close> both round to the nearest multiple of 1/100,
  a tie going to the even neighbour; they are modelled on the exact real value.
\<close>

datatype actual_val = ANone | ANaN | ANum real

record metrics =
  MAE :: real
  RMSE :: real
  MAPE :: string

definition round_half_even :: "real \<Rightarrow> int" where
  "round_half_even x =
     (let f = \<lfloor>x\<rfloor>; d = x - of_int f
      in if d < 1 / 2 then f
         else if 1 / 2 < d then f + 1
         else if even f then f else f + 1)"

definition py_round2 :: "real \<Rightarrow> real" where
  "py_round2 x = of_int (round_half_even (x * 100)) / 100"

definition format_2f :: "real \<Rightarrow> string" where
  "format_2f x =
     (let n = round_half_even (x * 100); a = nat \<bar>n\<bar>
      in (if n < 0 then ''-'' else [])
         @ show_nat (a div 100) @ ''.''
         @ [digit_char (a div 10 mod 10), digit_char (a mod 10)])"

text \<open>\<open>numpy.sqrt\<close>, \<open>numpy.sin\<close>, \<open>numpy.cos\<close> and \<open>numpy.pi\<close> are the real ones; they have no
  code equations, so that evaluation leaves their applications as they are.\<close>

definition np_sqrt :: "real \<Rightarrow> real" where
  "np_sqrt x = sqrt x"

definition np_sin :: "real \<Rightarrow> real" where
  "np_sin x = sin x"

definition np_cos :: "real \<Rightarrow> real" where
  "np_cos x = cos x"

definition np_pi :: real where
  "np_pi = pi"

declare np_pi_def [code del]
declare np_sin_def [code del]
declare np_cos_def [code del]

definition np_mean :: "real list \<Rightarrow> real" where
  "np_mean xs = sum_list xs / of_nat (length xs)"

text \<open>The list comprehension over \<open>zip(actual, predicted)\<close>.\<close>

fun metric_pairs :: "actual_val list \<Rightarrow> real list \<Rightarrow> (real \<times> real) list" where
  "metric_pairs (a # as) (p # ps) =
     (case a of
        ANum x \<Rightarrow> (x, p) # metric_pairs as ps
      | ANaN \<Rightarrow> metric_pairs as ps
      | ANone \<Rightarrow> metric_pairs as ps)"
| "metric_pairs _ _ = []"

definition calculate_metrics :: "actual_val list \<Rightarrow> real list \<Rightarrow> metrics" where
  "calculate_metrics actual predicted =
     (let pairs = metric_pairs actual predicted
      in if pairs = [] then \<lparr>MAE = 0, RMSE = 0, MAPE = ''N/A''\<rparr>
         else
           let actuals = map fst pairs;
               preds = map snd pairs;
               diffs = map2 (\<lambda>a p. a - p) actuals preds;
               mae = np_mean (map abs diffs);
               rmse = np_sqrt (np_mean (map (\<lambda>d. d ^ 2) diffs));
               nonzero = filter (\<lambda>(a, p). a \<noteq> 0) (zip actuals preds);
               mape_str =
                 (if 0 < length nonzero
                  then format_2f (np_mean (map (\<lambda>(a, p). \<bar>(a - p) / a\<bar>) nonzero) * 100) @ ''%''
                  else ''N/A'')
           in \<lparr>MAE = py_round2 mae, RMSE = py_round2 rmse, MAPE = mape_str\<rparr>)"

section \<open>Data frames\<close>

text \<open>
  A float that may be NaN is a \<open>pyfloat\<close>, with \<open>None\<close> for NaN. A pandas Series is a list
  of them. A DataFrame is kept column-major, as the code builds it: the datetime column
  \<open>date\<close> and the numeric columns by name, in the order of their creation. All columns
  of a frame have the length of \<open>dates\<close>.
\<close>

type_synonym pyfloat = "real option"
type_synonym series = "pyfloat list"

record pydate =
  d_year :: int
  d_month :: nat
  d_day :: nat

record dataframe =
  dates :: "pydate list"
  columns :: "(string \<times> series) list"

definition df_len :: "dataframe \<Rightarrow> nat" where
  "df_len df = length (dates df)"

definition has_column :: "dataframe \<Rightarrow> string \<Rightarrow> bool" where
  "has_column df name = (map_of (columns df) name \<noteq> None)"

text \<open>\<open>df[name]\<close> raises KeyError for a missing column.\<close>

definition df_get :: "dataframe \<Rightarrow> string \<Rightarrow> py_error + series" where
  "df_get df name =
     (case map_of (columns df) name of None \<Rightarrow> Inl (KeyError name) | Some s \<Rightarrow> Inr s)"

text \<open>\<open>df[name] = s\<close>: an existing column is replaced in place, a new one is appended.\<close>

fun assign :: "string \<Rightarrow> 'v \<Rightarrow> (string \<times> 'v) list \<Rightarrow> (string \<times> 'v) list" where
  "assign k v [] = [(k, v)]"
| "assign k v (p # ps) = (if fst p = k then (k, v) # ps else p # assign k v ps)"

definition df_set :: "string \<Rightarrow> series \<Rightarrow> dataframe \<Rightarrow> dataframe" where
  "df_set name s df = df\<lparr>columns := assign name s (columns df)\<rparr>"

text \<open>Boolean row selection \<open>df[mask]\<close>.\<close>

definition select_rows :: "bool list \<Rightarrow> 'a list \<Rightarrow> 'a list" where
  "select_rows sel xs = map snd (filter fst (zip sel xs))"

definition df_filter :: "bool list \<Rightarrow> dataframe \<Rightarrow> dataframe" where
  "df_filter sel df =
     \<lparr>dates = select_rows sel (dates df),
      columns = map (\<lambda>(name, s). (name, select_rows sel s)) (columns df)\<rparr>"

definition year_mask :: "dataframe \<Rightarrow> int \<Rightarrow> bool list" where
  "year_mask df y = map (\<lambda>d. d_year d < y) (dates df)"

text \<open>\<open>Series.shift(k)\<close> for \<open>k \<ge> 0\<close>, \<open>Series.fillna(v)\<close>, and
  \<open>Series.rolling(w)\<close> with pandas' default \<open>min_periods = w\<close>: position \<open>i\<close> has a value
  only when the \<open>w\<close> entries ending at \<open>i\<close> exist and none of them is NaN.
  \<open>Series.std\<close> is the sample standard deviation (one degree of freedom removed),
  \<open>numpy.std\<close> the population one; \<open>numpy.mean\<close> of no values, or of values with a
  NaN among them, is NaN.\<close>

definition shift :: "nat \<Rightarrow> series \<Rightarrow> series" where
  "shift k xs = take (length xs) (replicate k None @ xs)"

definition fillna :: "real \<Rightarrow> series \<Rightarrow> series" where
  "fillna v xs = map (\<lambda>x. case x of None \<Rightarrow> Some v | Some y \<Rightarrow> Some y) xs"

definition sample_std :: "real list \<Rightarrow> real" where
  "sample_std vs =
     np_sqrt ((\<Sum>v\<leftarrow>vs. (v - np_mean vs) ^ 2) / (of_nat (length vs) - 1))"

definition population_std :: "real list \<Rightarrow> real" where
  "population_std vs = np_sqrt (np_mean (map (\<lambda>v. (v - np_mean vs) ^ 2) vs))"

definition rolling :: "nat \<Rightarrow> (real list \<Rightarrow> real) \<Rightarrow> series \<Rightarrow> series" where
  "rolling w f xs =
     map (\<lambda>i. if i + 1 < w then None
              else map_option f (those (take w (drop (i + 1 - w) xs))))
         [0..<length xs]"

definition nan_mean :: "series \<Rightarrow> pyfloat" where
  "nan_mean xs = (if xs = [] then None else map_option np_mean (those xs))"

definition nan_std :: "series \<Rightarrow> pyfloat" where
  "nan_std xs = (if xs = [] then None else map_option population_std (those xs))"

section \<open>forecasting/feature_engineering.py\<close>

definition CATEGORY_FEATURES :: "(string \<times> string list) list" where
  "CATEGORY_FEATURES =
     [(''antibiotic'',
        [''month'', ''quarter'', ''year'',
         ''lag_1'', ''lag_2'', ''lag_3'', ''lag_6'', ''lag_12'',
         ''rolling_mean_3'', ''rolling_mean_6'', ''rolling_std_3'',
         ''month_sin'', ''month_cos'',
         ''is_flu_season'', ''disease_index'', ''prescription_rate'', ''temperature_avg'']),
      (''acute'',
        [''month'', ''quarter'', ''year'',
         ''lag_1'', ''lag_2'', ''lag_3'', ''lag_6'',
         ''rolling_mean_3'', ''rolling_mean_6'', ''rolling_std_3'',
         ''month_sin'', ''month_cos'',
         ''promotion_flag'', ''is_monsoon'', ''weather_index'', ''week_of_year'']),
      (''chronic'',
        [''month'', ''quarter'', ''year'',
         ''lag_1'', ''lag_3'', ''lag_6'', ''lag_12'',
         ''rolling_mean_3'', ''rolling_mean_6'', ''rolling_mean_12'',
         ''rolling_std_6'',
         ''month_sin'', ''month_cos'',
         ''trend_index'', ''refill_cycle'', ''patient_adherence'']),
      (''gastro'',
        [''month'', ''quarter'', ''year'',
         ''lag_1'', ''lag_2'', ''lag_3'', ''lag_6'',
         ''rolling_mean_3'', ''rolling_mean_6'', ''rolling_std_3'',
         ''month_sin'', ''month_cos'',
         ''is_festival_period'', ''dietary_index'', ''is_monsoon'']),
      (''other'',
        [''month'', ''quarter'', ''year'',
         ''lag_1'', ''lag_3'', ''lag_6'',
         ''rolling_mean_3'', ''rolling_mean_6'',
         ''month_sin'', ''month_cos''])]"

definition other_features :: "string list" where
  "other_features =
     [''month'', ''quarter'', ''year'', ''lag_1'', ''lag_3'', ''lag_6'',
      ''rolling_mean_3'', ''rolling_mean_6'', ''month_sin'', ''month_cos'']"

definition ext_cols :: "string list" where
  "ext_cols =
     [''disease_index'', ''prescription_rate'', ''temperature_avg'',
      ''promotion_flag'', ''weather_index'', ''refill_cycle'',
      ''patient_adherence'', ''dietary_index'']"

text \<open>A stored sales document of one product, with its date parsed; \<open>doc_external\<close> is
  the \<open>external_features\<close> entry when it is a dict.\<close>

record sales_doc =
  doc_date :: pydate
  doc_category :: string
  doc_units :: pyfloat
  doc_external :: "(string \<times> pyfloat) list option"

definition date_key :: "pydate \<Rightarrow> int" where
  "date_key d = d_year d * 10000 + int (d_month d) * 100 + int (d_day d)"

definition quarter_of :: "nat \<Rightarrow> nat" where
  "quarter_of m = (m - 1) div 3 + 1"

definition num :: "nat \<Rightarrow> pyfloat" where
  "num n = Some (of_nat n)"

definition flag :: "bool \<Rightarrow> pyfloat" where
  "flag b = Some (if b then 1 else 0)"

definition month_sin :: "nat \<Rightarrow> pyfloat" where
  "month_sin m = Some (np_sin (2 * np_pi * of_nat m / 12))"

definition month_cos :: "nat \<Rightarrow> pyfloat" where
  "month_cos m = Some (np_cos (2 * np_pi * of_nat m / 12))"

definition ext_value :: "sales_doc \<Rightarrow> string \<Rightarrow> pyfloat" where
  "ext_value doc col =
     (case doc_external doc of
        Some d \<Rightarrow> dict_get d col None
      | None \<Rightarrow> None)"

text \<open>The ISO week number of a date, as the calendar library computes it: the
  proleptic Gregorian ordinal of the date, the Monday that starts ISO week 1 of a year,
  and the week index from their difference.\<close>

definition is_leap :: "int \<Rightarrow> bool" where
  "is_leap y = (y mod 4 = 0 \<and> (y mod 100 \<noteq> 0 \<or> y mod 400 = 0))"

definition days_before_year :: "int \<Rightarrow> int" where
  "days_before_year y = (y - 1) * 365 + (y - 1) div 4 - (y - 1) div 100 + (y - 1) div 400"

definition days_before_month :: "int \<Rightarrow> nat \<Rightarrow> int" where
  "days_before_month y m =
     ([0, 31, 59, 90, 120, 151, 181, 212, 243, 273, 304, 334] ! ((m - 1) mod 12))
     + (if 2 < m \<and> is_leap y then 1 else 0)"

definition ymd2ord :: "pydate \<Rightarrow> int" where
  "ymd2ord d = days_before_year (d_year d) + days_before_month (d_year d) (d_month d) + int (d_day d)"

definition isoweek1monday :: "int \<Rightarrow> int" where
  "isoweek1monday y =
     (let firstday = ymd2ord \<lparr>d_year = y, d_month = 1, d_day = 1\<rparr>;
          firstweekday = (firstday + 6) mod 7;
          week1monday = firstday - firstweekday
      in if 3 < firstweekday then week1monday + 7 else week1monday)"

definition iso_week :: "pydate \<Rightarrow> nat" where
  "iso_week d =
     (let today = ymd2ord d;
          week = (today - isoweek1monday (d_year d)) div 7
      in if week < 0 then nat ((today - isoweek1monday (d_year d - 1)) div 7 + 1)
         else if 52 \<le> week \<and> isoweek1monday (d_year d + 1) \<le> today then 1
         else nat (week + 1))"

text \<open>
  \<open>build_features\<close>. The rows are sorted by date (rows of equal date keep their order
  here; the data model has one row per month). The raw text columns of the documents
  take no part in the feature selection and are left out of the frame.
\<close>

definition build_features :: "sales_doc list \<Rightarrow> string \<Rightarrow> dataframe \<times> string list" where
  "build_features docs category =
     (let rows = sort_key (\<lambda>r. date_key (doc_date r)) docs;
          ds = map doc_date rows;
          units = map doc_units rows;
          df = \<lparr>dates = ds, columns = [(''units_sold'', units)]\<rparr>;
          df = df_set ''month'' (map (\<lambda>d. num (d_month d)) ds) df;
          df = df_set ''quarter'' (map (\<lambda>d. num (quarter_of (d_month d))) ds) df;
          df = df_set ''year'' (map (\<lambda>d. Some (of_int (d_year d))) ds) df;
          df = df_set ''week_of_year'' (map (\<lambda>d. num (iso_week d)) ds) df;
          df = df_set ''month_sin'' (map (\<lambda>d. month_sin (d_month d)) ds) df;
          df = df_set ''month_cos'' (map (\<lambda>d. month_cos (d_month d)) ds) df;
          df = fold (\<lambda>lag. df_set (''lag_'' @ show_nat lag) (shift lag units)) [1, 2, 3, 6, 12] df;
          df = fold (\<lambda>window df.
                 df_set (''rolling_std_'' @ show_nat window)
                        (rolling window sample_std (shift 1 units))
                   (df_set (''rolling_mean_'' @ show_nat window)
                           (rolling window np_mean (shift 1 units)) df))
                 [3, 6, 12] df;
          df = df_set ''trend_index'' (map num [0..<length rows]) df;
          df = df_set ''is_flu_season'' (map (\<lambda>d. flag (d_month d \<in> set [11, 12, 1, 2])) ds) df;
          df = df_set ''is_monsoon'' (map (\<lambda>d. flag (d_month d \<in> set [7, 8, 9])) ds) df;
          df = df_set ''is_festival_period'' (map (\<lambda>d. flag (d_month d \<in> set [3, 4, 6])) ds) df;
          df = fold (\<lambda>col. df_set col (map (\<lambda>r. ext_value r col) rows)) ext_cols df;
          df = fold (\<lambda>col df.
                 df_set col (fillna 0 (case df_get df col of Inr s \<Rightarrow> s | Inl e \<Rightarrow> [])) df)
                 ext_cols df;
          cat = get_category_type category;
          desired = dict_get CATEGORY_FEATURES cat other_features;
          available = filter (has_column df) desired
      in (df, available))"

text \<open>\<open>build_future_features\<close>. A row is a dict of numbers in insertion order, next to
  its date. \<open>external_future\<close> is \<open>None\<close> or a dict of numbers.\<close>

record future_row =
  fr_date :: pydate
  fr_vals :: "(string \<times> pyfloat) list"

definition month_begin_after :: "pydate \<Rightarrow> nat \<Rightarrow> pydate" where
  "month_begin_after d k =
     (let t = d_year d * 12 + (int (d_month d) - 1) + int k
      in \<lparr>d_year = t div 12, d_month = nat (t mod 12) + 1, d_day = 1\<rparr>)"

definition future_dates :: "pydate \<Rightarrow> nat \<Rightarrow> pydate list" where
  "future_dates last_date n_months = map (\<lambda>j. month_begin_after last_date (j + 1)) [0..<n_months]"

text \<open>\<open>history[-lag] if len(history) >= lag else nan\<close> and \<open>history[-window:]\<close>.\<close>

definition history_lag :: "series \<Rightarrow> nat \<Rightarrow> pyfloat" where
  "history_lag history lag =
     (if lag \<le> length history then history ! (length history - lag) else None)"

definition last_n :: "nat \<Rightarrow> 'a list \<Rightarrow> 'a list" where
  "last_n w xs = drop (length xs - w) xs"

definition ext_defaults :: "(string \<times> pyfloat) list" where
  "ext_defaults =
     [(''disease_index'', Some 0), (''prescription_rate'', Some 0), (''temperature_avg'', Some 0),
      (''promotion_flag'', Some 0), (''weather_index'', Some 0), (''refill_cycle'', Some 0),
      (''patient_adherence'', Some 0), (''dietary_index'', Some 0)]"

text \<open>\<open>d.update(e)\<close> on insertion-ordered dicts.\<close>

definition dict_update :: "(string \<times> 'v) list \<Rightarrow> (string \<times> 'v) list \<Rightarrow> (string \<times> 'v) list" where
  "dict_update e d = fold (\<lambda>(k, v). assign k v) e d"

text \<open>The body of the loop is split in two: the features computed from the date and the
  history buffer, and the finished row after \<open>row.update(ext_defaults)\<close>.\<close>

definition future_row_computed :: "nat \<Rightarrow> nat \<Rightarrow> pydate \<Rightarrow> series \<Rightarrow> (string \<times> pyfloat) list" where
  "future_row_computed n_known i dt history =
     (let row = [(''month'', num (d_month dt)),
                 (''quarter'', num (quarter_of (d_month dt))),
                 (''year'', Some (of_int (d_year dt))),
                 (''week_of_year'', num (iso_week dt)),
                 (''month_sin'', month_sin (d_month dt)),
                 (''month_cos'', month_cos (d_month dt)),
                 (''trend_index'', num (n_known + i))];
          row = fold (\<lambda>lag. assign (''lag_'' @ show_nat lag) (history_lag history lag))
                  [1, 2, 3, 6, 12] row;
          row = fold (\<lambda>window row.
                  if window \<le> length history then
                    assign (''rolling_std_'' @ show_nat window) (nan_std (last_n window history))
                      (assign (''rolling_mean_'' @ show_nat window)
                         (nan_mean (last_n window history)) row)
                  else
                    assign (''rolling_std_'' @ show_nat window) (Some 0)
                      (assign (''rolling_mean_'' @ show_nat window)
                         (if history \<noteq> [] then nan_mean history else Some 0) row))
                  [3, 6, 12] row;
          row = assign ''is_flu_season'' (flag (d_month dt \<in> set [11, 12, 1, 2])) row;
          row = assign ''is_monsoon'' (flag (d_month dt \<in> set [7, 8, 9])) row;
          row = assign ''is_festival_period'' (flag (d_month dt \<in> set [3, 4, 6])) row
      in row)"

definition make_future_row ::
  "nat \<Rightarrow> (string \<times> pyfloat) list option \<Rightarrow> nat \<Rightarrow> pydate \<Rightarrow> series \<Rightarrow> future_row" where
  "make_future_row n_known external_future i dt history =
     (let row = future_row_computed n_known i dt history;
          defaults = (case external_future of
                        None \<Rightarrow> ext_defaults
                      | Some e \<Rightarrow> if e = [] then ext_defaults else dict_update e ext_defaults);
          row = dict_update defaults row
      in \<lparr>fr_date = dt, fr_vals = row\<rparr>)"

text \<open>The loop over \<open>enumerate(future_dates)\<close>: \<open>i\<close> is the index of the next date,
  \<open>history\<close> the buffer, \<open>rows\<close> the rows emitted so far.\<close>

fun future_loop ::
  "nat \<Rightarrow> (string \<times> pyfloat) list option \<Rightarrow> nat \<Rightarrow> pydate list
     \<Rightarrow> series \<Rightarrow> future_row list \<Rightarrow> future_row list" where
  "future_loop n_known external_future i [] history rows = rows"
| "future_loop n_known external_future i (dt # dts) history rows =
     (let row = make_future_row n_known external_future i dt history;
          placeholder = dict_get (fr_vals row) ''rolling_mean_3''
                          (if history \<noteq> [] then last history else Some 0)
      in future_loop n_known external_future (Suc i) dts
           (history @ [placeholder]) (rows @ [row]))"

definition build_future_features ::
  "pydate \<Rightarrow> nat \<Rightarrow> string \<Rightarrow> series \<Rightarrow> (string \<times> pyfloat) list option \<Rightarrow> future_row list" where
  "build_future_features last_date n_months category last_known_values external_future =
     future_loop (length last_known_values) external_future 0
       (future_dates last_date n_months) last_known_values []"

section \<open>The model adapters (models/*.py)\<close>

text \<open>
  The adapters call three external libraries. Their fitting and prediction routines are
  parameters of the model, gathered in \<open>ml_libs\<close>; each may raise. Every call an adapter
  makes is recorded, in order, in a list of \<open>lib_call\<close>, so that what a library is
  trained on and how often it is called can be stated. A fitted model is a value of a
  type parameter.
\<close>

type_synonym sarimax_order = "(nat \<times> nat \<times> nat) \<times> (nat \<times> nat \<times> nat \<times> nat)"

datatype lib_call =
    ProphetFit "(pydate \<times> real) list"
  | ProphetPredict "pydate list"
  | XgbFit "real list list" "real list"
  | XgbPredict "real list list"
  | SarimaxFit sarimax_order "(pydate \<times> real) list" "real list list option"
  | SarimaxForecast nat "real list list option"

record ('pm, 'xm, 'sm) ml_libs =
  prophet_installed :: bool
  prophet_fit :: "(pydate \<times> real) list \<Rightarrow> py_error + 'pm"
  prophet_predict :: "'pm \<Rightarrow> pydate list \<Rightarrow> py_error + real list"
  xgboost_installed :: bool
  xgb_fit :: "real list list \<Rightarrow> real list \<Rightarrow> py_error + 'xm"
  xgb_predict :: "'xm \<Rightarrow> real list list \<Rightarrow> py_error + real list"
  sarimax_fit :: "sarimax_order \<Rightarrow> (pydate \<times> real) list \<Rightarrow> real list list option \<Rightarrow> py_error + 'sm"
  sarimax_forecast :: "'sm \<Rightarrow> nat \<Rightarrow> real list list option \<Rightarrow> py_error + real list"

definition insufficient_message :: "nat \<Rightarrow> nat \<Rightarrow> string" where
  "insufficient_message n need =
     ''Insufficient training data: '' @ show_nat n @ '' rows (need '' @ GE_SIGN @ '' ''
     @ show_nat need @ '')''"

text \<open>\<open>df[[c1, ..., cn]]\<close>, the rows of a list of columns as a matrix, and
  \<open>dropna(subset=...)\<close>.\<close>

fun df_get_all :: "dataframe \<Rightarrow> string list \<Rightarrow> py_error + series list" where
  "df_get_all df [] = Inr []"
| "df_get_all df (c # cs) =
     (case df_get df c of
        Inl e \<Rightarrow> Inl e
      | Inr s \<Rightarrow> (case df_get_all df cs of Inl e \<Rightarrow> Inl e | Inr ss \<Rightarrow> Inr (s # ss)))"

definition rows_of :: "nat \<Rightarrow> 'a list list \<Rightarrow> 'a list list" where
  "rows_of n cols = map (\<lambda>i. map (\<lambda>s. s ! i) cols) [0..<n]"

definition filled_matrix :: "dataframe \<Rightarrow> string list \<Rightarrow> py_error + real list list" where
  "filled_matrix df cols =
     (case df_get_all df cols of
        Inl e \<Rightarrow> Inl e
      | Inr ss \<Rightarrow> Inr (rows_of (df_len df) (map (map (\<lambda>x. case x of None \<Rightarrow> 0 | Some v \<Rightarrow> v)) ss)))"

definition dropna_subset :: "dataframe \<Rightarrow> string list \<Rightarrow> py_error + dataframe" where
  "dropna_subset df cols =
     (case df_get_all df cols of
        Inl e \<Rightarrow> Inl e
      | Inr ss \<Rightarrow> Inr (df_filter (map (\<lambda>i. list_all (\<lambda>s. s ! i \<noteq> None) ss) [0..<df_len df]) df))"

text \<open>The pairs of date and target without the rows whose target is NaN.\<close>

fun known_rows :: "pydate list \<Rightarrow> series \<Rightarrow> (pydate \<times> real) list" where
  "known_rows (d # ds) (y # ys) =
     (case y of None \<Rightarrow> known_rows ds ys | Some v \<Rightarrow> (d, v) # known_rows ds ys)"
| "known_rows _ _ = []"

definition clip0 :: "real list \<Rightarrow> real list" where
  "clip0 ps = map (max 0) ps"

definition year_months :: "int \<Rightarrow> pydate list" where
  "year_months y = map (\<lambda>m. \<lparr>d_year = y, d_month = m, d_day = 1\<rparr>) [1..<13]"

subsection \<open>models/prophet_model.py\<close>

definition train_and_predict_prophet ::
  "('pm, 'xm, 'sm) ml_libs \<Rightarrow> dataframe \<Rightarrow> int \<Rightarrow> lib_call list \<times> (py_error + real list \<times> 'pm)" where
  "train_and_predict_prophet libs df forecast_year =
     (if \<not> prophet_installed libs
      then ([], Inl (ImportError ''prophet package not installed. Run: pip install prophet''))
      else
        let train = df_filter (year_mask df forecast_year) df
        in case df_get train ''units_sold'' of
             Inl e \<Rightarrow> ([], Inl e)
           | Inr ys \<Rightarrow>
               let rows = known_rows (dates train) ys
               in if length rows < 12
                  then ([], Inl (ValueError (insufficient_message (length rows) 12)))
                  else
                    (case prophet_fit libs rows of
                       Inl e \<Rightarrow> ([ProphetFit rows], Inl e)
                     | Inr model \<Rightarrow>
                         let future = year_months forecast_year
                         in case prophet_predict libs model future of
                              Inl e \<Rightarrow> ([ProphetFit rows, ProphetPredict future], Inl e)
                            | Inr yhat \<Rightarrow>
                                ([ProphetFit rows, ProphetPredict future],
                                 Inr (clip0 yhat, model))))"

subsection \<open>models/xgboost_model.py\<close>

definition train_and_predict_xgboost ::
  "('pm, 'xm, 'sm) ml_libs \<Rightarrow> dataframe \<Rightarrow> string list \<Rightarrow> int \<Rightarrow> dataframe option
     \<Rightarrow> lib_call list \<times> (py_error + real list \<times> 'xm)" where
  "train_and_predict_xgboost libs df feature_cols forecast_year future_features_df =
     (if \<not> xgboost_installed libs
      then ([], Inl (ImportError ''xgboost package not installed. Run: pip install xgboost''))
      else
        let train = df_filter (year_mask df forecast_year) df
        in case dropna_subset train (feature_cols @ [''units_sold'']) of
             Inl e \<Rightarrow> ([], Inl e)
           | Inr train \<Rightarrow>
               if df_len train < 12
               then ([], Inl (ValueError (insufficient_message (df_len train) 12)))
               else
                 (case filled_matrix train feature_cols of
                    Inl e \<Rightarrow> ([], Inl e)
                  | Inr X_train \<Rightarrow>
                      (case filled_matrix train [''units_sold''] of
                         Inl e \<Rightarrow> ([], Inl e)
                       | Inr y_rows \<Rightarrow>
                           let y_train = concat y_rows
                           in case xgb_fit libs X_train y_train of
                                Inl e \<Rightarrow> ([XgbFit X_train y_train], Inl e)
                              | Inr model \<Rightarrow>
                                  (case future_features_df of
                                     None \<Rightarrow>
                                       ([XgbFit X_train y_train],
                                        Inl (ValueError
                                          ''future_features_df must be provided for XGBoost prediction''))
                                   | Some fut \<Rightarrow>
                                       (case filled_matrix fut feature_cols of
                                          Inl e \<Rightarrow> ([XgbFit X_train y_train], Inl e)
                                        | Inr X_future \<Rightarrow>
                                            (case xgb_predict libs model X_future of
                                               Inl e \<Rightarrow>
                                                 ([XgbFit X_train y_train, XgbPredict X_future], Inl e)
                                             | Inr ps \<Rightarrow>
                                                 ([XgbFit X_train y_train, XgbPredict X_future],
                                                  Inr (clip0 ps, model))))))))"

subsection \<open>models/hybrid_model.py\<close>

definition train_and_predict_hybrid ::
  "('pm, 'xm, 'sm) ml_libs \<Rightarrow> dataframe \<Rightarrow> string list \<Rightarrow> int \<Rightarrow> dataframe option \<Rightarrow> real
     \<Rightarrow> lib_call list \<times> (py_error + real list \<times> (real list \<times> real list))" where
  "train_and_predict_hybrid libs df feature_cols forecast_year future_features_df prophet_weight =
     (case train_and_predict_prophet libs df forecast_year of
        (calls1, Inl e) \<Rightarrow> (calls1, Inl e)
      | (calls1, Inr (prophet_preds, prophet_model)) \<Rightarrow>
          (case train_and_predict_xgboost libs df feature_cols forecast_year future_features_df of
             (calls2, Inl e) \<Rightarrow> (calls1 @ calls2, Inl e)
           | (calls2, Inr (xgb_preds, xgb_model)) \<Rightarrow>
               (calls1 @ calls2,
                Inr (map2 (\<lambda>p x. max 0 (prophet_weight * p + (1 - prophet_weight) * x))
                       prophet_preds xgb_preds,
                     (prophet_preds, xgb_preds)))))"

subsection \<open>models/sarimax_model.py\<close>

text \<open>\<open>df.sort_values("date")\<close> (rows of equal date keep their order here),
  \<open>fillna(method="ffill")\<close> and the column means of a matrix.\<close>

definition df_sort :: "dataframe \<Rightarrow> dataframe" where
  "df_sort df =
     (let perm = sort_key (\<lambda>i. date_key (dates df ! i)) [0..<df_len df]
      in \<lparr>dates = map (\<lambda>i. dates df ! i) perm,
          columns = map (\<lambda>(name, s). (name, map (\<lambda>i. s ! i) perm)) (columns df)\<rparr>)"

fun ffill_from :: "pyfloat \<Rightarrow> series \<Rightarrow> series" where
  "ffill_from prev [] = []"
| "ffill_from prev (x # xs) =
     (case x of None \<Rightarrow> prev # ffill_from prev xs | Some v \<Rightarrow> Some v # ffill_from (Some v) xs)"

definition filled_values :: "series \<Rightarrow> real list" where
  "filled_values s = map (\<lambda>x. case x of None \<Rightarrow> 0 | Some v \<Rightarrow> v) s"

definition column_means :: "series list \<Rightarrow> real list" where
  "column_means ss = map (\<lambda>s. np_mean (filled_values s)) ss"

definition default_order :: sarimax_order where
  "default_order = ((1, 1, 1), (1, 1, 1, 12))"

definition simple_order :: sarimax_order where
  "simple_order = ((1, 0, 0), (1, 0, 0, 12))"

text \<open>The exogenous part: \<open>None\<close> when no exogenous column is used, else the training
  matrix and the matrix of the 12 future rows.\<close>

definition sarimax_exog ::
  "dataframe \<Rightarrow> string list option \<Rightarrow> dataframe option
     \<Rightarrow> py_error + (real list list \<times> real list list) option" where
  "sarimax_exog train exog_cols future_exog_df =
     (case exog_cols of
        None \<Rightarrow> Inr None
      | Some cols \<Rightarrow>
          if cols = [] then Inr None
          else
            let available_exog = filter (has_column train) cols
            in if available_exog = [] then Inr None
               else
                 (case df_get_all train available_exog of
                    Inl e \<Rightarrow> Inl e
                  | Inr ss \<Rightarrow>
                      let exog_train = rows_of (df_len train) (map filled_values ss);
                          tiled = replicate 12 (column_means ss)
                      in case future_exog_df of
                           None \<Rightarrow> Inr (Some (exog_train, tiled))
                         | Some fut \<Rightarrow>
                             let missing = filter (\<lambda>c. \<not> has_column fut c) available_exog
                             in if missing = []
                                then (case filled_matrix fut available_exog of
                                        Inl e \<Rightarrow> Inl e
                                      | Inr m \<Rightarrow> Inr (Some (exog_train, m)))
                                else Inr (Some (exog_train, tiled))))"

text \<open>The forecast step. Its guard against a training matrix without a future matrix
  cannot fire: \<open>sarimax_exog\<close> yields both matrices or none.\<close>

definition sarimax_predict ::
  "('pm, 'xm, 'sm) ml_libs \<Rightarrow> lib_call list \<Rightarrow> 'sm \<Rightarrow> real list list option
     \<Rightarrow> lib_call list \<times> (py_error + real list \<times> 'sm)" where
  "sarimax_predict libs calls result exog_future =
     (case sarimax_forecast libs result 12 exog_future of
        Inl e \<Rightarrow>
          (calls @ [SarimaxForecast 12 exog_future],
           Inl (RuntimeError (''Prediction failed: '' @ py_str e)))
      | Inr preds \<Rightarrow> (calls @ [SarimaxForecast 12 exog_future], Inr (clip0 preds, result)))"

definition train_and_predict_sarimax ::
  "('pm, 'xm, 'sm) ml_libs \<Rightarrow> dataframe \<Rightarrow> int \<Rightarrow> string list option \<Rightarrow> dataframe option
     \<Rightarrow> lib_call list \<times> (py_error + real list \<times> 'sm)" where
  "train_and_predict_sarimax libs df forecast_year exog_cols future_exog_df =
     (let df = df_sort df;
          train = df_filter (year_mask df forecast_year) df
      in case df_get train ''units_sold'' of
           Inl e \<Rightarrow> ([], Inl e)
         | Inr units \<Rightarrow>
             let y_train = zip (dates train) (filled_values (ffill_from None units))
             in if length y_train < 24
                then ([], Inl (ValueError (insufficient_message (length y_train) 24)))
                else
                  (case sarimax_exog train exog_cols future_exog_df of
                     Inl e \<Rightarrow> ([], Inl e)
                   | Inr exog \<Rightarrow>
                       let exog_train = map_option fst exog;
                           exog_future = map_option snd exog
                       in case sarimax_fit libs default_order y_train exog_train of
                            Inr result \<Rightarrow>
                              sarimax_predict libs [SarimaxFit default_order y_train exog_train]
                                result exog_future
                          | Inl e \<Rightarrow>
                              (case sarimax_fit libs simple_order y_train exog_train of
                                 Inr result \<Rightarrow>
                                   sarimax_predict libs
                                     [SarimaxFit default_order y_train exog_train,
                                      SarimaxFit simple_order y_train exog_train]
                                     result exog_future
                               | Inl e2 \<Rightarrow>
                                   ([SarimaxFit default_order y_train exog_train,
                                     SarimaxFit simple_order y_train exog_train],
                                    Inl (RuntimeError
                                      (''SARIMAX training failed: '' @ py_str e @ '' | ''
                                       @ py_str e2))))))"

section \<open>routes/forecast_routes.py\<close>

definition MONTH_LABELS :: "string list" where
  "MONTH_LABELS =
     [''Jan-2025'', ''Feb-2025'', ''Mar-2025'', ''Apr-2025'',
      ''May-2025'', ''Jun-2025'', ''Jul-2025'', ''Aug-2025'',
      ''Sep-2025'', ''Oct-2025'', ''Nov-2025'', ''Dec-2025'']"

text \<open>\<open>pd.DataFrame(rows)\<close> for a list of dicts with the keys of the first row.\<close>

definition frame_of_rows :: "future_row list \<Rightarrow> dataframe" where
  "frame_of_rows rows =
     \<lparr>dates = map fr_date rows,
      columns = (case rows of
                   [] \<Rightarrow> []
                 | r # rest \<Rightarrow>
                     map (\<lambda>(k, v). (k, map (\<lambda>row. dict_get (fr_vals row) k None) rows))
                       (fr_vals r))\<rparr>"

text \<open>\<open>_run_model\<close>: the dispatch on the model name. The predictions are kept, the
  fitted model is dropped.\<close>

definition predictions_only ::
  "lib_call list \<times> (py_error + real list \<times> 'm) \<Rightarrow> lib_call list \<times> (py_error + real list)" where
  "predictions_only r =
     (case r of (calls, Inl e) \<Rightarrow> (calls, Inl e) | (calls, Inr (preds, m)) \<Rightarrow> (calls, Inr preds))"

definition run_model ::
  "('pm, 'xm, 'sm) ml_libs \<Rightarrow> string \<Rightarrow> dataframe \<Rightarrow> string list \<Rightarrow> dataframe \<Rightarrow> int
     \<Rightarrow> lib_call list \<times> (py_error + real list)" where
  "run_model libs model_name df feature_cols future_df forecast_year =
     (if model_name = ''prophet'' then
        predictions_only (train_and_predict_prophet libs df forecast_year)
      else if model_name = ''xgboost'' then
        predictions_only
          (train_and_predict_xgboost libs df feature_cols forecast_year (Some future_df))
      else if model_name = ''sarimax'' then
        (let exog_cols = filter (\<lambda>c. c \<notin> set [''month'', ''quarter'', ''year'', ''trend_index''])
                           feature_cols
         in predictions_only
              (train_and_predict_sarimax libs df forecast_year
                 (if exog_cols \<noteq> [] then Some exog_cols else None) None))
      else if model_name = ''hybrid'' then
        predictions_only
          (train_and_predict_hybrid libs df feature_cols forecast_year (Some future_df) (1 / 2))
      else ([], Inl (ValueError (''Unknown model: '' @ model_name))))"

text \<open>The request, the result, and the collaborators of \<open>run_forecast\<close>: the
  connection state and the stored sales documents of each product. \<open>req_model\<close> is the
  \<open>.value\<close> of the request's model field, which the request schema restricts to
  prophet, xgboost, sarimax, hybrid and auto.\<close>

record forecast_request =
  req_product :: string
  req_category :: "string option"
  req_model :: string
  req_year :: int

record forecast_result =
  res_product :: string
  res_category :: string
  model_used :: string
  months :: "string list"
  res_actual :: "actual_val list"
  res_predicted :: "real list"
  res_metrics :: "metrics option"
  features_used :: "string list"

record db_env =
  connected :: bool
  sales_data :: "string \<Rightarrow> sales_doc list"

text \<open>What an invocation does: the models it ran, in order; the results it upserted
  into the store, each under its key of product and year; and its response.\<close>

record run_outcome =
  attempted :: "string list"
  upserts :: "((string \<times> int) \<times> forecast_result) list"
  response :: "py_error + forecast_result"

text \<open>\<open>sep.join(xs)\<close>.\<close>

fun py_join :: "string \<Rightarrow> string list \<Rightarrow> string" where
  "py_join sep [] = []"
| "py_join sep [x] = x"
| "py_join sep (x # y # ys) = x @ sep @ py_join sep (y # ys)"

text \<open>The category: the request's, or else the most frequent \<open>product_category\<close> of
  the documents (the least one among the most frequent), or else other.\<close>

definition mode_of :: "string list \<Rightarrow> string option" where
  "mode_of xs =
     (if xs = [] then None
      else let top = fold max (map (count_list xs) xs) 0;
               candidates = filter (\<lambda>x. count_list xs x = top) xs
           in Some (fold min (tl candidates) (hd candidates)))"

definition resolve_category :: "sales_doc list \<Rightarrow> forecast_request \<Rightarrow> string" where
  "resolve_category docs request =
     (case req_category request of
        Some c \<Rightarrow>
          if c \<noteq> [] then c
          else (case mode_of (map doc_category docs) of Some m \<Rightarrow> m | None \<Rightarrow> ''other'')
      | None \<Rightarrow> (case mode_of (map doc_category docs) of Some m \<Rightarrow> m | None \<Rightarrow> ''other''))"

text \<open>The feature frame, the feature names and the future feature frame.\<close>

definition max_date :: "pydate list \<Rightarrow> pydate" where
  "max_date ds = fold (\<lambda>d m. if date_key m < date_key d then d else m) (tl ds) (hd ds)"

definition prepare_frames :: "sales_doc list \<Rightarrow> string \<Rightarrow> int \<Rightarrow> dataframe \<times> string list \<times> dataframe" where
  "prepare_frames docs category year =
     (let (feat_df, feature_cols) = build_features docs category;
          train_df = df_filter (year_mask feat_df year) feat_df;
          last_date = (if df_len train_df \<noteq> 0 then max_date (dates train_df)
                       else \<lparr>d_year = year - 1, d_month = 12, d_day = 1\<rparr>);
          last_values = last_n 12 (case df_get train_df ''units_sold'' of Inr s \<Rightarrow> s | Inl e \<Rightarrow> []);
          future_df = frame_of_rows (build_future_features last_date 12 category last_values None)
      in (feat_df, feature_cols, future_df))"

text \<open>The model run with fallback: the \<open>try\<close> block around the primary model and the
  loop over the fallback models. \<open>run\<close> is \<open>_run_model\<close> on the prepared frames.\<close>

fun try_fallbacks ::
  "(string \<Rightarrow> py_error + real list) \<Rightarrow> string list \<Rightarrow> string list \<Rightarrow> string list
     \<Rightarrow> string list \<times> (string list + string \<times> real list)" where
  "try_fallbacks run [] errors tried = (tried, Inl errors)"
| "try_fallbacks run (fallback # rest) errors tried =
     (case run fallback of
        Inr predictions \<Rightarrow> (tried @ [fallback], Inr (fallback @ '' (fallback)'', predictions))
      | Inl e2 \<Rightarrow>
          try_fallbacks run rest
            (errors @ [''Fallback '' @ fallback @ '': '' @ py_str e2]) (tried @ [fallback]))"

definition run_with_fallback ::
  "(string \<Rightarrow> py_error + real list) \<Rightarrow> string \<Rightarrow> string list
     \<Rightarrow> string list \<times> (py_error + string \<times> real list)" where
  "run_with_fallback run model_name fallback_models =
     (case run model_name of
        Inr predictions \<Rightarrow> ([model_name], Inr (model_name, predictions))
      | Inl e \<Rightarrow>
          (case try_fallbacks run fallback_models
                  [''Primary '' @ model_name @ '': '' @ py_str e] [model_name] of
             (tried, Inr r) \<Rightarrow> (tried, Inr r)
           | (tried, Inl errors) \<Rightarrow>
               (tried,
                Inl (HTTPException 500
                       (''All models failed. Details: '' @ py_join ''; '' errors)))))"

text \<open>The actual values of the target year: the documents whose stored date string
  \<open>YYYY-MM-DD\<close> begins with the year, keyed by the month in the string; a later
  document of a month replaces an earlier one.\<close>

definition pad_left :: "nat \<Rightarrow> string \<Rightarrow> string" where
  "pad_left n s = replicate (n - length s) CHR ''0'' @ s"

definition date_str :: "pydate \<Rightarrow> string" where
  "date_str d =
     pad_left 4 (show_int (d_year d)) @ ''-'' @ pad_left 2 (show_nat (d_month d)) @ ''-''
     @ pad_left 2 (show_nat (d_day d))"

definition load_actual :: "sales_doc list \<Rightarrow> int \<Rightarrow> actual_val list" where
  "load_actual docs year =
     (let actual_docs = filter (\<lambda>doc. prefix (show_int year) (date_str (doc_date doc))) docs;
          actual_by_month = fold (\<lambda>doc al. (d_month (doc_date doc), doc_units doc) # al)
                              actual_docs []
      in map (\<lambda>m. case map_of actual_by_month m of
                     None \<Rightarrow> ANone
                   | Some None \<Rightarrow> ANaN
                   | Some (Some v) \<Rightarrow> ANum v) [1..<13])"

definition model_runner ::
  "('pm, 'xm, 'sm) ml_libs \<Rightarrow> sales_doc list \<Rightarrow> forecast_request \<Rightarrow> string \<Rightarrow> py_error + real list" where
  "model_runner libs docs request name =
     (let category = resolve_category docs request;
          (feat_df, feature_cols, future_df) = prepare_frames docs category (req_year request)
      in snd (run_model libs name feat_df feature_cols future_df (req_year request)))"

definition run_forecast ::
  "('pm, 'xm, 'sm) ml_libs \<Rightarrow> db_env \<Rightarrow> forecast_request \<Rightarrow> run_outcome" where
  "run_forecast libs env request =
     (if \<not> connected env then
        \<lparr>attempted = [], upserts = [],
         response = Inl (HTTPException 400 ''Not connected to MongoDB.'')\<rparr>
      else
        let docs = sales_data env (req_product request)
        in if docs = [] then
             \<lparr>attempted = [], upserts = [],
              response = Inl (HTTPException 404
                (''No data found for product '' @ [CHR 0x27] @ req_product request @ [CHR 0x27]))\<rparr>
           else
             let category = resolve_category docs request;
                 (feat_df, feature_cols, future_df) = prepare_frames docs category (req_year request)
             in case select_model category (req_model request) of
                  Inl e \<Rightarrow> \<lparr>attempted = [], upserts = [], response = Inl e\<rparr>
                | Inr model_name \<Rightarrow>
                    (case run_with_fallback (model_runner libs docs request) model_name
                            (get_fallback_list category) of
                       (tried, Inl e) \<Rightarrow> \<lparr>attempted = tried, upserts = [], response = Inl e\<rparr>
                     | (tried, Inr (model_name, predictions)) \<Rightarrow>
                         let actual = load_actual docs (req_year request);
                             metrics_dict = calculate_metrics actual predictions;
                             metrics = (if MAE metrics_dict \<noteq> 0 \<or> list_ex (\<lambda>a. a \<noteq> ANone) actual
                                        then Some metrics_dict else None);
                             result = \<lparr>res_product = req_product request,
                                       res_category = category,
                                       model_used = model_name,
                                       months = MONTH_LABELS,
                                       res_actual = actual,
                                       res_predicted = map py_round2 predictions,
                                       res_metrics = metrics,
                                       features_used = feature_cols\<rparr>
                         in \<lparr>attempted = tried,
                             upserts = [((req_product request, req_year request), result)],
                             response = Inr result\<rparr>))"

section \<open>Properties of the model selector\<close>

lemma get_category_type_lookup:
  "get_category_type c = dict_get CATEGORY_TYPE_MAP (py_strip (py_lower c)) ''other''"
  by (cases c) (simp_all add: get_category_type_def py_strip_def py_lower_def dict_get_def
      CATEGORY_TYPE_MAP_def)

lemma get_category_type_range:
  "get_category_type c = ''antibiotic'' \<or> get_category_type c = ''gastro'' \<or>
   get_category_type c = ''acute'' \<or> get_category_type c = ''chronic'' \<or>
   get_category_type c = ''other''"
  unfolding get_category_type_lookup dict_get_def CATEGORY_TYPE_MAP_def
  by (simp split: option.splits)

lemma py_lower_Cefixime: "py_strip (py_lower ''Cefixime'') = ''cefixime''"
  by code_simp

lemma py_lower_unknown_drug: "py_strip (py_lower ''unknown drug'') = ''unknown drug''"
  by code_simp

lemma py_lower_char_space: "py_isspace ch \<Longrightarrow> py_lower_char ch = ch"
  by (auto simp: py_isspace_def py_lower_char_def Let_def)

lemma py_lower_char_idem: "py_lower_char (py_lower_char ch) = py_lower_char ch"
  by (auto simp: py_lower_char_def Let_def)

lemma py_lower_idem: "py_lower (py_lower s) = py_lower s"
  by (simp add: py_lower_def py_lower_char_idem)

lemma py_lower_padding: "py_lower (filter py_isspace a) = filter py_isspace a"
  by (induction a) (simp_all add: py_lower_def py_lower_char_space)

lemma dropWhile_all: "list_all P ws \<Longrightarrow> dropWhile P (ws @ s) = dropWhile P s"
  by (induction ws) simp_all

lemma py_strip_padding:
  assumes a: "list_all py_isspace a" and b: "list_all py_isspace b"
  shows "py_strip (a @ s @ b) = py_strip s"
proof (cases "list_all py_isspace s")
  case True
  then have "list_all py_isspace (a @ s @ b)" "list_all py_isspace s"
    using a b by simp_all
  then have "dropWhile py_isspace (a @ s @ b) = []" "dropWhile py_isspace s = []"
    unfolding dropWhile_eq_Nil_conv by (simp_all add: list_all_iff)
  then show ?thesis unfolding py_strip_def by (simp only: rev.simps dropWhile.simps)
next
  case False
  then obtain x where x: "x \<in> set s" "\<not> py_isspace x" by (auto simp: list_all_iff)
  have "dropWhile py_isspace (a @ s @ b) = dropWhile py_isspace s @ b"
    using a x by (simp add: dropWhile_all dropWhile_append1)
  moreover have "list_all py_isspace (rev b)" using b by (simp add: list_all_iff)
  ultimately show ?thesis by (simp add: py_strip_def dropWhile_all)
qed

lemma get_category_type_padding:
  "get_category_type (filter py_isspace a @ c @ filter py_isspace b) = get_category_type c"
proof -
  have "py_lower (filter py_isspace a @ c @ filter py_isspace b)
        = filter py_isspace a @ py_lower c @ filter py_isspace b"
    using py_lower_padding [of a] py_lower_padding [of b] by (simp add: py_lower_def)
  moreover have "list_all py_isspace (filter py_isspace a)"
      "list_all py_isspace (filter py_isspace b)"
    by (simp_all add: list_all_iff)
  ultimately show ?thesis
    unfolding get_category_type_lookup by (simp add: py_strip_padding)
qed

lemma get_category_type_lower: "get_category_type (py_lower c) = get_category_type c"
  unfolding get_category_type_lookup by (simp add: py_lower_idem)

lemma get_category_type_table:
  "get_category_type c =
     (if py_strip (py_lower c) = ''cefixime'' then ''antibiotic''
      else if py_strip (py_lower c) = ''omeprazole'' then ''gastro''
      else if py_strip (py_lower c) = ''diclofenac sodium'' then ''acute''
      else if py_strip (py_lower c) = ''escitalopram'' then ''chronic''
      else if py_strip (py_lower c) = ''empagliflozin'' then ''chronic''
      else if py_strip (py_lower c) = ''dapagliflozin'' then ''chronic''
      else if py_strip (py_lower c) = ''sitagliptin'' then ''chronic''
      else ''other'')"
  unfolding get_category_type_lookup by (simp add: dict_get_def CATEGORY_TYPE_MAP_def)

lemma py_isspace_codes:
  "py_isspace ch = (of_char ch \<in> {9, 10, 11, 12, 13, 28, 29, 30, 31, 32, 133, 160 :: nat})"
  unfolding py_isspace_def Let_def by auto

lemma classifier_examples:
  "py_strip (py_lower ''  CEFIXIME '') = ''cefixime''"
  "py_strip (py_lower ([CHR 0x09, CHR 0x0A] @ ''Omeprazole'' @ [CHR 0x0D, CHR 0x20, CHR 0x0B, CHR 0x0C]))
     = ''omeprazole''"
  "py_strip (py_lower '' Diclofenac Sodium'') = ''diclofenac sodium''"
  "py_strip (py_lower ''DiclofenacSodium'') = ''diclofenacsodium''"
  "py_strip (py_lower ''diclofenac  sodium'') = ''diclofenac  sodium''"
  "py_strip (py_lower ''ESCITALOPRAM'') = ''escitalopram''"
  "py_strip (py_lower ''Empagliflozin  '') = ''empagliflozin''"
  "py_strip (py_lower ''dapagliflozin'') = ''dapagliflozin''"
  "py_strip (py_lower ''SitaGliptin'') = ''sitagliptin''"
  "py_strip (py_lower ''   '') = []"
  "py_strip (py_lower ''cefixime 400mg'') = ''cefixime 400mg''"
  "py_strip (py_lower ''_cefixime'') = ''_cefixime''"
  by code_simp+

text \<open>
  Claim C6. The category classifier \<open>get_category_type\<close> is a total function of its
  input string: for every string, the empty one included, its value is one of
  antibiotic, gastro, acute, chronic and other. The input is lower-cased and stripped of
  leading and trailing white space, and the result looked up in the fixed table
  cefixime: antibiotic, omeprazole: gastro, diclofenac sodium: acute, escitalopram,
  empagliflozin, dapagliflozin and sitagliptin: chronic; every other string gives other.
  So white space put before or after the input does not change the class, nor does
  lower-casing the input, while white space inside the name is kept and matters. White
  space is the characters with codes 9 to 13, 28 to 32, 133 and 160. In particular
  Cefixime is classified antibiotic and unknown drug is classified other, and names in
  upper case or with blanks, tabs and line ends around them are classified as the plain
  name is.
\<close>

theorem classifier_total_exact_lookup:
  "(get_category_type c = ''antibiotic'' \<or> get_category_type c = ''gastro'' \<or>
    get_category_type c = ''acute'' \<or> get_category_type c = ''chronic'' \<or>
    get_category_type c = ''other'')
   \<and> get_category_type c =
       (case map_of CATEGORY_TYPE_MAP (py_strip (py_lower c)) of
          Some t \<Rightarrow> t | None \<Rightarrow> ''other'')
   \<and> get_category_type c =
       (if py_strip (py_lower c) = ''cefixime'' then ''antibiotic''
        else if py_strip (py_lower c) = ''omeprazole'' then ''gastro''
        else if py_strip (py_lower c) = ''diclofenac sodium'' then ''acute''
        else if py_strip (py_lower c) = ''escitalopram'' then ''chronic''
        else if py_strip (py_lower c) = ''empagliflozin'' then ''chronic''
        else if py_strip (py_lower c) = ''dapagliflozin'' then ''chronic''
        else if py_strip (py_lower c) = ''sitagliptin'' then ''chronic''
        else ''other'')
   \<and> get_category_type (filter py_isspace a @ c @ filter py_isspace b) = get_category_type c
   \<and> get_category_type (py_lower c) = get_category_type c
   \<and> py_isspace ch = (of_char ch \<in> {9, 10, 11, 12, 13, 28, 29, 30, 31, 32, 133, 160 :: nat})
   \<and> get_category_type [] = ''other''
   \<and> get_category_type ''Cefixime'' = ''antibiotic''
   \<and> get_category_type ''unknown drug'' = ''other''
   \<and> get_category_type ''  CEFIXIME '' = ''antibiotic''
   \<and> get_category_type
         ([CHR 0x09, CHR 0x0A] @ ''Omeprazole'' @ [CHR 0x0D, CHR 0x20, CHR 0x0B, CHR 0x0C])
       = ''gastro''
   \<and> get_category_type '' Diclofenac Sodium'' = ''acute''
   \<and> get_category_type ''DiclofenacSodium'' = ''other''
   \<and> get_category_type ''diclofenac  sodium'' = ''other''
   \<and> get_category_type ''ESCITALOPRAM'' = ''chronic''
   \<and> get_category_type ''Empagliflozin  '' = ''chronic''
   \<and> get_category_type ''dapagliflozin'' = ''chronic''
   \<and> get_category_type ''SitaGliptin'' = ''chronic''
   \<and> get_category_type ''   '' = ''other''
   \<and> get_category_type ''cefixime 400mg'' = ''other''
   \<and> get_category_type ''_cefixime'' = ''other''"
proof -
  have range: "get_category_type c = ''antibiotic'' \<or> get_category_type c = ''gastro'' \<or>
      get_category_type c = ''acute'' \<or> get_category_type c = ''chronic'' \<or>
      get_category_type c = ''other''"
    by (rule get_category_type_range)
  have lookup: "get_category_type c =
      (case map_of CATEGORY_TYPE_MAP (py_strip (py_lower c)) of
         Some t \<Rightarrow> t | None \<Rightarrow> ''other'')"
    using get_category_type_lookup [of c] by (simp add: dict_get_def)
  have empty: "get_category_type [] = ''other''"
    by (simp add: get_category_type_def)
  have cef: "get_category_type ''Cefixime'' = ''antibiotic''"
    unfolding get_category_type_lookup py_lower_Cefixime
    by (simp add: dict_get_def CATEGORY_TYPE_MAP_def)
  have unk: "get_category_type ''unknown drug'' = ''other''"
    unfolding get_category_type_lookup py_lower_unknown_drug
    by (simp add: dict_get_def CATEGORY_TYPE_MAP_def)
  have ex1: "get_category_type ''  CEFIXIME '' = ''antibiotic''"
    unfolding get_category_type_table classifier_examples by simp
  have ex2: "get_category_type
       ([CHR 0x09, CHR 0x0A] @ ''Omeprazole'' @ [CHR 0x0D, CHR 0x20, CHR 0x0B, CHR 0x0C])
     = ''gastro''"
    unfolding get_category_type_table classifier_examples by simp
  have ex3: "get_category_type '' Diclofenac Sodium'' = ''acute''"
    unfolding get_category_type_table classifier_examples by simp
  have ex4: "get_category_type ''DiclofenacSodium'' = ''other''"
    unfolding get_category_type_table classifier_examples by simp
  have ex5: "get_category_type ''diclofenac  sodium'' = ''other''"
    unfolding get_category_type_table classifier_examples by simp
  have ex6: "get_category_type ''ESCITALOPRAM'' = ''chronic''"
    unfolding get_category_type_table classifier_examples by simp
  have ex7: "get_category_type ''Empagliflozin  '' = ''chronic''"
    unfolding get_category_type_table classifier_examples by simp
  have ex8: "get_category_type ''dapagliflozin'' = ''chronic''"
    unfolding get_category_type_table classifier_examples by simp
  have ex9: "get_category_type ''SitaGliptin'' = ''chronic''"
    unfolding get_category_type_table classifier_examples by simp
  have ex10: "get_category_type ''   '' = ''other''"
    unfolding get_category_type_table classifier_examples by simp
  have ex11: "get_category_type ''cefixime 400mg'' = ''other''"
    unfolding get_category_type_table classifier_examples by simp
  have ex12: "get_category_type ''_cefixime'' = ''other''"
    unfolding get_category_type_table classifier_examples by simp
  show ?thesis
    apply (intro conjI)
    apply (rule range)
    apply (rule lookup)
    apply (rule get_category_type_table)
    apply (rule get_category_type_padding)
    apply (rule get_category_type_lower)
    apply (rule py_isspace_codes)
    apply (rule empty cef unk ex1 ex2 ex3 ex4 ex5 ex6 ex7 ex8 ex9 ex10 ex11 ex12)+
    done
qed

text \<open>
  Claim C3, as stated: a category string outside the classification table gets the
  default fallback list prophet, xgboost. It fails: the type other has its own entry in
  \<open>TYPE_FALLBACK_MAP\<close>, so the default of the lookup is never used.
\<close>

theorem fallback_unmapped_counterexample:
  "map_of CATEGORY_TYPE_MAP (py_strip (py_lower ''unknown drug'')) = None
   \<and> get_category_type ''unknown drug'' = ''other''
   \<and> get_fallback_list ''unknown drug'' = [''prophet'', ''sarimax'']
   \<and> get_fallback_list ''unknown drug'' \<noteq> [''prophet'', ''xgboost'']"
  unfolding get_fallback_list_def get_category_type_lookup py_lower_unknown_drug
  by (simp add: dict_get_def CATEGORY_TYPE_MAP_def TYPE_FALLBACK_MAP_def)

text \<open>
  Claim C3, amended. For every category string that is not in the classification table
  (so that it resolves to the type other), \<open>get_fallback_list\<close> returns the list of the
  table entry other, which is prophet, sarimax; for a category resolving to antibiotic
  it returns prophet, xgboost. More generally the result is the \<open>TYPE_FALLBACK_MAP\<close> entry
  of the resolved type, and the function's built-in default list is unreachable.
\<close>

theorem fallback_list_by_type:
  "(map_of CATEGORY_TYPE_MAP (py_strip (py_lower c)) = None \<longrightarrow>
      get_category_type c = ''other'' \<and> get_fallback_list c = [''prophet'', ''sarimax''])
   \<and> (get_category_type c = ''antibiotic'' \<longrightarrow> get_fallback_list c = [''prophet'', ''xgboost''])
   \<and> map_of TYPE_FALLBACK_MAP (get_category_type c) = Some (get_fallback_list c)"
proof -
  have a: "map_of CATEGORY_TYPE_MAP (py_strip (py_lower c)) = None \<longrightarrow>
      get_category_type c = ''other'' \<and> get_fallback_list c = [''prophet'', ''sarimax'']"
    unfolding get_fallback_list_def get_category_type_lookup
    by (simp add: dict_get_def TYPE_FALLBACK_MAP_def)
  have b: "get_category_type c = ''antibiotic'' \<longrightarrow> get_fallback_list c = [''prophet'', ''xgboost'']"
    by (simp add: get_fallback_list_def dict_get_def TYPE_FALLBACK_MAP_def)
  have c: "map_of TYPE_FALLBACK_MAP (get_category_type c) = Some (get_fallback_list c)"
    using get_category_type_range [of c]
    by (auto simp: get_fallback_list_def dict_get_def TYPE_FALLBACK_MAP_def)
  from a b c show ?thesis by blast
qed

theorem fallback_list_by_type_witness:
  "map_of CATEGORY_TYPE_MAP (py_strip (py_lower ''unknown drug'')) = None
   \<and> get_fallback_list ''unknown drug'' = [''prophet'', ''sarimax'']
   \<and> get_category_type ''Cefixime'' = ''antibiotic''
   \<and> get_fallback_list ''Cefixime'' = [''prophet'', ''xgboost'']"
proof -
  have h1: "map_of CATEGORY_TYPE_MAP (py_strip (py_lower ''unknown drug'')) = None"
    unfolding py_lower_unknown_drug by (simp add: CATEGORY_TYPE_MAP_def)
  have h2: "get_category_type ''Cefixime'' = ''antibiotic''"
    unfolding get_category_type_lookup py_lower_Cefixime
    by (simp add: dict_get_def CATEGORY_TYPE_MAP_def)
  from h1 h2 fallback_list_by_type [of "''unknown drug''"] fallback_list_by_type [of "''Cefixime''"]
  show ?thesis by blast
qed

section \<open>Properties of the evaluator\<close>














section \<open>Properties of the historical feature builder\<close>

text \<open>Reading one cell of a frame, \<open>df[name].iloc[i]\<close>, and an example document.\<close>

definition feature_at :: "dataframe \<Rightarrow> string \<Rightarrow> nat \<Rightarrow> py_error + pyfloat" where
  "feature_at df name i =
     (case df_get df name of
        Inl e \<Rightarrow> Inl e
      | Inr s \<Rightarrow> if i < length s then Inr (s ! i) else Inl (LibraryError ''IndexError''))"

definition month_doc :: "int \<Rightarrow> nat \<Rightarrow> real \<Rightarrow> sales_doc" where
  "month_doc y m u =
     \<lparr>doc_date = \<lparr>d_year = y, d_month = m, d_day = 1\<rparr>, doc_category = ''Cefixime'',
      doc_units = Some u, doc_external = None\<rparr>"

definition four_months :: "sales_doc list" where
  "four_months =
     [month_doc 2024 1 10, month_doc 2024 2 20, month_doc 2024 3 30, month_doc 2024 4 40]"

definition sorted_units :: "sales_doc list \<Rightarrow> series" where
  "sorted_units docs = map doc_units (sort_key (\<lambda>r. date_key (doc_date r)) docs)"

lemma map_of_assign: "map_of (assign k v al) = (map_of al)(k \<mapsto> v)"
  by (induction al) auto

lemma show_nat_small:
  "show_nat 1 = ''1''" "show_nat 2 = ''2''" "show_nat 3 = ''3''" "show_nat 6 = ''6''"
  "show_nat 12 = ''12''" "show_nat (Suc 0) = ''1''"
  by code_simp+

lemma lookup_df_set:
  "map_of (columns (df_set k v df)) name = (if name = k then Some v else map_of (columns df) name)"
  by (simp add: df_set_def map_of_assign)

lemma lookup_fold_df_set_other:
  "name \<notin> set cols \<Longrightarrow>
   map_of (columns (fold (\<lambda>col df. df_set col (g col df) df) cols df)) name
     = map_of (columns df) name"
  by (induction cols arbitrary: df) (simp_all add: lookup_df_set)

lemma build_features_rolling_mean:
  assumes "w = 3 \<or> w = 6 \<or> w = 12"
  shows "map_of (columns (fst (build_features docs cat))) (''rolling_mean_'' @ show_nat w)
           = Some (rolling w np_mean (shift 1 (sorted_units docs)))"
  unfolding build_features_def Let_def sorted_units_def fst_conv
  apply (subst lookup_fold_df_set_other)
  using assms apply (auto simp: ext_cols_def show_nat_small)[1]
  apply (subst lookup_fold_df_set_other)
  using assms apply (auto simp: ext_cols_def show_nat_small)[1]
  using assms apply (auto simp: lookup_df_set show_nat_small)
  done

lemma build_features_rolling_std:
  assumes "w = 3 \<or> w = 6 \<or> w = 12"
  shows "map_of (columns (fst (build_features docs cat))) (''rolling_std_'' @ show_nat w)
           = Some (rolling w sample_std (shift 1 (sorted_units docs)))"
  unfolding build_features_def Let_def sorted_units_def fst_conv
  apply (subst lookup_fold_df_set_other)
  using assms apply (auto simp: ext_cols_def show_nat_small)[1]
  apply (subst lookup_fold_df_set_other)
  using assms apply (auto simp: ext_cols_def show_nat_small)[1]
  using assms apply (auto simp: lookup_df_set show_nat_small)
  done

lemma length_shift: "length (shift k xs) = length xs"
  by (simp add: shift_def)

lemma length_rolling: "length (rolling w f xs) = length xs"
  by (simp add: rolling_def)

lemma length_sorted_units: "length (sorted_units docs) = length docs"
  by (simp add: sorted_units_def)

lemma those_starts_with_None: "those (None # xs) = None"
  by simp

lemma rolling_shift_nth:
  assumes "i < length xs" and "1 \<le> w"
  shows "rolling w f (shift 1 xs) ! i
           = (if w \<le> i then map_option f (those (take w (drop (i - w) xs))) else None)"
proof -
  have nth: "rolling w f (shift 1 xs) ! i
      = (if i + 1 < w then None
         else map_option f (those (take w (drop (i + 1 - w) (shift 1 xs)))))"
    using assms(1) by (simp add: rolling_def length_shift)
  show ?thesis
  proof (cases "w \<le> i")
    case True
    then have "i + 1 - w = Suc (i - w)" by simp
    then have "drop (i + 1 - w) (shift 1 xs) = take (length xs - Suc (i - w)) (drop (i - w) xs)"
      by (simp add: shift_def drop_take)
    moreover have "w \<le> length xs - Suc (i - w)"
      using True assms(1) by simp
    ultimately have "take w (drop (i + 1 - w) (shift 1 xs)) = take w (drop (i - w) xs)"
      by (simp add: min_absorb1)
    with True nth show ?thesis by simp
  next
    case False
    show ?thesis
    proof (cases "i + 1 < w")
      case True
      with False nth show ?thesis by simp
    next
      case edge: False
      with \<open>\<not> w \<le> i\<close> have "w = i + 1" by simp
      moreover have "shift 1 xs = None # take (length xs - 1) xs"
        using assms(1) by (cases xs) (simp_all add: shift_def)
      ultimately have "those (take w (drop (i + 1 - w) (shift 1 xs))) = None"
        by simp
      with False nth edge show ?thesis by simp
    qed
  qed
qed

lemma those_map_Some: "those (map Some ys) = Some ys"
  by (induction ys) simp_all

lemma feature_at_rolling_mean:
  assumes "w = 3 \<or> w = 6 \<or> w = 12" and "i < length docs"
  shows "feature_at (fst (build_features docs cat)) (''rolling_mean_'' @ show_nat w) i
           = Inr (if w \<le> i
                  then map_option np_mean (those (take w (drop (i - w) (sorted_units docs))))
                  else None)"
proof -
  have "1 \<le> w" using assms(1) by auto
  moreover have "i < length (sorted_units docs)"
    using assms(2) by (simp add: length_sorted_units)
  ultimately have cell: "rolling w np_mean (shift 1 (sorted_units docs)) ! i
      = (if w \<le> i
         then map_option np_mean (those (take w (drop (i - w) (sorted_units docs))))
         else None)"
    by (intro rolling_shift_nth)
  show ?thesis
    unfolding feature_at_def df_get_def build_features_rolling_mean [OF assms(1)]
    using assms(2) cell
    by (simp add: length_rolling length_shift length_sorted_units)
qed

lemma feature_at_rolling_std:
  assumes "w = 3 \<or> w = 6 \<or> w = 12" and "i < length docs"
  shows "feature_at (fst (build_features docs cat)) (''rolling_std_'' @ show_nat w) i
           = Inr (if w \<le> i
                  then map_option sample_std (those (take w (drop (i - w) (sorted_units docs))))
                  else None)"
proof -
  have "1 \<le> w" using assms(1) by auto
  moreover have "i < length (sorted_units docs)"
    using assms(2) by (simp add: length_sorted_units)
  ultimately have cell: "rolling w sample_std (shift 1 (sorted_units docs)) ! i
      = (if w \<le> i
         then map_option sample_std (those (take w (drop (i - w) (sorted_units docs))))
         else None)"
    by (intro rolling_shift_nth)
  show ?thesis
    unfolding feature_at_def df_get_def build_features_rolling_std [OF assms(1)]
    using assms(2) cell
    by (simp add: length_rolling length_shift length_sorted_units)
qed

lemma sorted_units_four_months: "sorted_units four_months = [Some 10, Some 20, Some 30, Some 40]"
  by (simp add: sorted_units_def four_months_def month_doc_def date_key_def)

lemma length_four_months: "length four_months = 4"
  by (simp add: four_months_def)

text \<open>
  Claim C4, as stated: at a row \<open>i\<close> with \<open>0 < i < w\<close> the rolling mean is the mean of the
  \<open>i\<close> prior values and the rolling std is 0. It fails in the historical builder: with
  four monthly rows of 10, 20, 30, 40 units, row 2 has no 3-month rolling mean and no
  rolling std at all (both are NaN), where the claim gives the mean of 10 and 20 and a
  std of 0.
\<close>

theorem rolling_short_history_counterexample:
  "feature_at (fst (build_features four_months ''Cefixime'')) ''rolling_mean_3'' 2 = Inr None
   \<and> feature_at (fst (build_features four_months ''Cefixime'')) ''rolling_mean_3'' 2 \<noteq> Inr (Some (np_mean [10, 20]))
   \<and> feature_at (fst (build_features four_months ''Cefixime'')) ''rolling_std_3'' 2 = Inr None
   \<and> feature_at (fst (build_features four_months ''Cefixime'')) ''rolling_std_3'' 2 \<noteq> Inr (Some 0)"
  using feature_at_rolling_mean [of 3 2 four_months "''Cefixime''"]
    feature_at_rolling_std [of 3 2 four_months "''Cefixime''"]
  by (simp add: show_nat_small length_four_months)

text \<open>
  Claim C4, amended. In the historical feature builder, for every window \<open>w\<close> of 3, 6
  and 12 and every row index \<open>i\<close>, the rolling mean and std features of row \<open>i\<close> are
  computed from strictly prior rows only (the series shifted by one). When \<open>i \<ge> w\<close> the
  value is the mean, respectively the sample standard deviation, of the \<open>w\<close> immediately
  preceding units_sold values (NaN if one of them is NaN); when \<open>i < w\<close> the window is
  not full and both features are NaN. The builder never fails on short history, but it
  has no fallback value there: the rows with NaN features are left to the consumers.
\<close>

theorem rolling_features_prior_rows:
  assumes "w = 3 \<or> w = 6 \<or> w = 12" and "i < length docs"
  shows "feature_at (fst (build_features docs cat)) (''rolling_mean_'' @ show_nat w) i
           = Inr (if w \<le> i
                  then map_option np_mean (those (take w (drop (i - w) (sorted_units docs))))
                  else None)
       \<and> feature_at (fst (build_features docs cat)) (''rolling_std_'' @ show_nat w) i
           = Inr (if w \<le> i
                  then map_option sample_std (those (take w (drop (i - w) (sorted_units docs))))
                  else None)
       \<and> (sorted_units docs = map Some vs \<longrightarrow> w \<le> i \<longrightarrow>
            feature_at (fst (build_features docs cat)) (''rolling_mean_'' @ show_nat w) i
              = Inr (Some (np_mean (take w (drop (i - w) vs))))
          \<and> feature_at (fst (build_features docs cat)) (''rolling_std_'' @ show_nat w) i
              = Inr (Some (sample_std (take w (drop (i - w) vs)))))"
proof -
  note mean_cell = feature_at_rolling_mean [OF assms, of cat]
  note std_cell = feature_at_rolling_std [OF assms, of cat]
  have numeric: "those (take w (drop (i - w) (map Some vs))) = Some (take w (drop (i - w) vs))"
    by (simp add: take_map drop_map those_map_Some)
  show ?thesis
    using mean_cell std_cell numeric by auto
qed

theorem rolling_features_prior_rows_witness:
  "((3::nat) = 3 \<or> (3::nat) = 6 \<or> (3::nat) = 12)
   \<and> 3 < length four_months
   \<and> feature_at (fst (build_features four_months ''Cefixime'')) ''rolling_mean_3'' 3 = Inr (Some 20)
   \<and> feature_at (fst (build_features four_months ''Cefixime'')) ''rolling_mean_3'' 1 = Inr None"
  using rolling_features_prior_rows [of 3 3 four_months "''Cefixime''" "[10, 20, 30, 40]"]
    rolling_features_prior_rows [of 3 1 four_months "''Cefixime''" "[10, 20, 30, 40]"]
  by (simp add: show_nat_small sorted_units_four_months length_four_months np_mean_def)

section \<open>Properties of the future feature builder\<close>

lemma keys_assign: "fst ` set (assign k v al) = insert k (fst ` set al)"
  by (induction al) auto

lemma distinct_assign: "distinct (map fst al) \<Longrightarrow> distinct (map fst (assign k v al))"
  by (induction al) (auto simp: keys_assign)

lemma distinct_dict_update: "distinct (map fst d) \<Longrightarrow> distinct (map fst (dict_update e d))"
  unfolding dict_update_def
  by (induction e arbitrary: d) (auto simp: distinct_assign)

lemma map_of_dict_update: "map_of (dict_update e d) = map_of d ++ map_of (rev e)"
  unfolding dict_update_def
  by (induction e arbitrary: d) (auto simp: map_of_assign fun_eq_iff map_add_def split: option.splits)

lemma map_of_rev_distinct: "distinct (map fst l) \<Longrightarrow> map_of (rev l) = map_of l"
  by (simp add: distinct_map map_of_inject_set)

text \<open>The entry that the external data (the eight defaults, updated with
  \<open>external_future\<close>) hold under a name, if any.\<close>

definition external_entry :: "(string \<times> pyfloat) list option \<Rightarrow> string \<Rightarrow> pyfloat option" where
  "external_entry ext name =
     (case ext of
        None \<Rightarrow> map_of ext_defaults name
      | Some e \<Rightarrow> (map_of ext_defaults ++ map_of (rev e)) name)"

text \<open>The rolling features of a row in the words of the specification: over the last
  \<open>w\<close> elements of the buffer when it has that many, else the mean of the whole buffer
  (0 for an empty buffer) and std 0.\<close>

definition computed_rolling_mean :: "nat \<Rightarrow> series \<Rightarrow> pyfloat" where
  "computed_rolling_mean w B =
     (if w \<le> length B then nan_mean (last_n w B)
      else if B = [] then Some 0 else nan_mean B)"

definition computed_rolling_std :: "nat \<Rightarrow> series \<Rightarrow> pyfloat" where
  "computed_rolling_std w B = (if w \<le> length B then nan_std (last_n w B) else Some 0)"

definition computed_lag :: "nat \<Rightarrow> series \<Rightarrow> pyfloat" where
  "computed_lag k B = (if k \<le> length B then rev B ! (k - 1) else None)"

text \<open>The history buffer in the words of the specification: it starts as
  \<open>last_known_values\<close>, and each emitted row extends it by the value that the row holds
  under \<open>rolling_mean_3\<close>.\<close>

definition row_placeholder :: "(string \<times> pyfloat) list option \<Rightarrow> series \<Rightarrow> pyfloat" where
  "row_placeholder ext B =
     (case external_entry ext ''rolling_mean_3'' of
        Some v \<Rightarrow> v
      | None \<Rightarrow> computed_rolling_mean 3 B)"

fun buffer_at :: "(string \<times> pyfloat) list option \<Rightarrow> series \<Rightarrow> nat \<Rightarrow> series" where
  "buffer_at ext lkv 0 = lkv"
| "buffer_at ext lkv (Suc i) = buffer_at ext lkv i @ [row_placeholder ext (buffer_at ext lkv i)]"

lemma distinct_ext_defaults: "distinct (map fst ext_defaults)"
  by (simp add: ext_defaults_def)

lemma external_defaults_lookup:
  "map_of (rev (case ext of None \<Rightarrow> ext_defaults
                | Some e \<Rightarrow> if e = [] then ext_defaults else dict_update e ext_defaults)) name
     = external_entry ext name"
proof (cases ext)
  case None
  then show ?thesis
    by (simp add: external_entry_def map_of_rev_distinct distinct_ext_defaults)
next
  case (Some e)
  have "map_of (rev (dict_update e ext_defaults)) = map_of ext_defaults ++ map_of (rev e)"
    by (simp add: map_of_rev_distinct distinct_dict_update distinct_ext_defaults
        map_of_dict_update)
  with Some show ?thesis
    by (simp add: external_entry_def map_of_rev_distinct distinct_ext_defaults)
qed

lemma row_lookup:
  "map_of (fr_vals (make_future_row n_known ext i dt history)) name
     = (case external_entry ext name of
          Some v \<Rightarrow> Some v
        | None \<Rightarrow> map_of (future_row_computed n_known i dt history) name)"
  unfolding make_future_row_def Let_def
  by (simp add: map_of_dict_update external_defaults_lookup map_add_def)

lemma computed_lookup_lag:
  assumes "k = 1 \<or> k = 2 \<or> k = 3 \<or> k = 6 \<or> k = 12"
  shows "map_of (future_row_computed n_known i dt history) (''lag_'' @ show_nat k)
           = Some (history_lag history k)"
  unfolding future_row_computed_def Let_def
  using assms by (elim disjE) (simp_all add: map_of_assign show_nat_small)

lemma computed_lookup_rolling_mean:
  assumes "w = 3 \<or> w = 6 \<or> w = 12"
  shows "map_of (future_row_computed n_known i dt history) (''rolling_mean_'' @ show_nat w)
           = Some (computed_rolling_mean w history)"
  unfolding future_row_computed_def Let_def computed_rolling_mean_def
  using assms by (elim disjE) (simp_all add: map_of_assign show_nat_small)

lemma computed_lookup_rolling_std:
  assumes "w = 3 \<or> w = 6 \<or> w = 12"
  shows "map_of (future_row_computed n_known i dt history) (''rolling_std_'' @ show_nat w)
           = Some (computed_rolling_std w history)"
  unfolding future_row_computed_def Let_def computed_rolling_std_def
  using assms by (elim disjE) (simp_all add: map_of_assign show_nat_small)

lemma history_lag_computed: "1 \<le> k \<Longrightarrow> history_lag B k = computed_lag k B"
  by (simp add: history_lag_def computed_lag_def rev_nth)

lemma future_loop_rows:
  "future_loop n_known ext i dts history rows
     = rows @ map (\<lambda>j. make_future_row n_known ext (i + j) (dts ! j) (buffer_at ext history j))
                [0..<length dts]"
proof (induction dts arbitrary: i history rows)
  case Nil
  show ?case by simp
next
  case (Cons dt dts)
  have placeholder:
    "dict_get (fr_vals (make_future_row n_known ext i dt history)) ''rolling_mean_3''
        (if history \<noteq> [] then last history else Some 0)
      = row_placeholder ext history"
  proof -
    have "map_of (future_row_computed n_known i dt history) ''rolling_mean_3''
        = Some (computed_rolling_mean 3 history)"
      using computed_lookup_rolling_mean [of 3 n_known i dt history]
      by (simp add: show_nat_small)
    then have "map_of (fr_vals (make_future_row n_known ext i dt history)) ''rolling_mean_3''
        = Some (row_placeholder ext history)"
      unfolding row_lookup row_placeholder_def by (simp split: option.splits)
    then show ?thesis
      unfolding dict_get_def by simp
  qed
  have shift_buffer: "buffer_at ext (history @ [row_placeholder ext history]) j
      = buffer_at ext history (Suc j)" for j
    by (induction j) simp_all
  have "map (\<lambda>j. make_future_row n_known ext (i + j) ((dt # dts) ! j) (buffer_at ext history j))
          [0..<length (dt # dts)]
      = make_future_row n_known ext i dt history
        # map (\<lambda>j. make_future_row n_known ext (Suc i + j) (dts ! j)
                   (buffer_at ext history (Suc j))) [0..<length dts]"
    by (simp add: upt_conv_Cons map_Suc_upt [symmetric] del: upt_Suc)
  then show ?case
    by (simp add: Let_def placeholder Cons.IH shift_buffer)
qed

lemma build_future_features_rows:
  "build_future_features last_date n cat lkv ext
     = map (\<lambda>j. make_future_row (length lkv) ext j (month_begin_after last_date (j + 1))
                  (buffer_at ext lkv j)) [0..<n]"
  by (simp add: build_future_features_def future_loop_rows future_dates_def cong: map_cong)

lemma length_build_future_features:
  "length (build_future_features last_date n cat lkv ext) = n"
  by (simp add: build_future_features_rows)

lemma future_row_nth:
  "i < n \<Longrightarrow> build_future_features last_date n cat lkv ext ! i
     = make_future_row (length lkv) ext i (month_begin_after last_date (i + 1)) (buffer_at ext lkv i)"
  by (simp add: build_future_features_rows)

lemma future_row_placeholder:
  assumes "i < n"
  shows "map_of (fr_vals (build_future_features last_date n cat lkv ext ! i)) ''rolling_mean_3''
           = Some (row_placeholder ext (buffer_at ext lkv i))"
proof -
  have "map_of (future_row_computed (length lkv) i (month_begin_after last_date (i + 1))
                  (buffer_at ext lkv i)) ''rolling_mean_3''
      = Some (computed_rolling_mean 3 (buffer_at ext lkv i))"
    using computed_lookup_rolling_mean [of 3] by (simp add: show_nat_small)
  then show ?thesis
    unfolding future_row_nth [OF assms] row_lookup row_placeholder_def
    by (simp split: option.splits)
qed

lemma external_entry_None_computed:
  "k = 1 \<or> k = 2 \<or> k = 3 \<or> k = 6 \<or> k = 12 \<Longrightarrow> external_entry None (''lag_'' @ show_nat k) = None"
  "w = 3 \<or> w = 6 \<or> w = 12 \<Longrightarrow> external_entry None (''rolling_mean_'' @ show_nat w) = None"
  "w = 3 \<or> w = 6 \<or> w = 12 \<Longrightarrow> external_entry None (''rolling_std_'' @ show_nat w) = None"
  by (auto simp: external_entry_def ext_defaults_def show_nat_small)

text \<open>
  Claim C7, as stated: every rolling mean of a future row falls back to the mean of the
  whole buffer when the buffer is shorter than the window, and every lag feature of a
  row is the lag-th element from the end of the buffer. It fails in two corners. With an
  empty \<open>last_known_values\<close> the buffer has no mean (\<open>numpy.mean\<close> of no values is NaN),
  and the code sets the rolling means of the first row to 0 instead. And an entry of
  \<open>external_future\<close> named like a computed feature replaces it in the row: with the
  entry lag_1 = 99 the row holds 99, not the last buffer element 3.
\<close>

theorem future_rows_counterexample:
  "map_of (fr_vals (build_future_features \<lparr>d_year = 2024, d_month = 12, d_day = 1\<rparr> 1
              ''Cefixime'' [] None ! 0)) ''rolling_mean_3'' = Some (Some 0)
   \<and> nan_mean [] = None
   \<and> map_of (fr_vals (build_future_features \<lparr>d_year = 2024, d_month = 12, d_day = 1\<rparr> 1
              ''Cefixime'' [Some 1, Some 2, Some 3] (Some [(''lag_1'', Some 99)]) ! 0)) ''lag_1''
       = Some (Some 99)
   \<and> computed_lag 1 [Some 1, Some 2, Some 3] = Some 3"
proof -
  have first: "map_of (fr_vals (build_future_features \<lparr>d_year = 2024, d_month = 12, d_day = 1\<rparr> 1
              ''Cefixime'' [] None ! 0)) ''rolling_mean_3'' = Some (Some 0)"
    using future_row_placeholder [of 0 1 "\<lparr>d_year = 2024, d_month = 12, d_day = 1\<rparr>"
        "''Cefixime''" "[]" None]
    by (simp add: row_placeholder_def external_entry_def ext_defaults_def
        computed_rolling_mean_def)
  have entry: "external_entry (Some [(''lag_1'', Some 99)]) ''lag_1'' = Some (Some 99)"
    by (simp add: external_entry_def)
  have second: "map_of (fr_vals (build_future_features \<lparr>d_year = 2024, d_month = 12, d_day = 1\<rparr> 1
              ''Cefixime'' [Some 1, Some 2, Some 3] (Some [(''lag_1'', Some 99)]) ! 0)) ''lag_1''
       = Some (Some 99)"
    by (simp add: future_row_nth row_lookup entry)
  have third: "computed_lag 1 [Some 1, Some 2, Some 3] = Some 3"
    by (simp add: computed_lag_def)
  from first second third show ?thesis
    by (simp add: nan_mean_def)
qed

text \<open>
  Claim C7, amended. In \<open>build_future_features\<close> the lag and rolling features of every
  future row are computed from a history buffer that starts as the supplied
  \<open>last_known_values\<close> and, after each future row is emitted, is extended by the value
  that this row holds under rolling_mean_3 (a synthetic placeholder; no model prediction
  enters the function). For each future row \<open>i\<close> and the buffer at that step, lag_k is
  the k-th-from-last buffer element (NaN if the buffer is shorter than \<open>k\<close>), and the
  rolling mean and std over a window of 3, 6 or 12 are taken over the last window
  elements of the buffer; when the buffer is shorter than the window, the mean is the
  mean of the whole buffer, or 0 when the buffer is empty, and the std is 0. These are
  the computed values: an entry of \<open>external_future\<close> with the name of a computed
  feature takes precedence in the row (and so in the placeholder, for rolling_mean_3).
  Without \<open>external_future\<close>, as \<open>run_forecast\<close> calls the builder, no computed lag or
  rolling feature is replaced.
\<close>

theorem future_rows_from_history_buffer:
  assumes "i < n"
  shows "length (build_future_features last_date n cat lkv ext) = n
    \<and> buffer_at ext lkv 0 = lkv
    \<and> map_of (fr_vals (build_future_features last_date n cat lkv ext ! i)) ''rolling_mean_3''
        = Some (last (buffer_at ext lkv (Suc i)))
    \<and> butlast (buffer_at ext lkv (Suc i)) = buffer_at ext lkv i
    \<and> (k = 1 \<or> k = 2 \<or> k = 3 \<or> k = 6 \<or> k = 12 \<longrightarrow>
          map_of (fr_vals (build_future_features last_date n cat lkv ext ! i)) (''lag_'' @ show_nat k)
            = (case external_entry ext (''lag_'' @ show_nat k) of
                 Some v \<Rightarrow> Some v
               | None \<Rightarrow> Some (if k \<le> length (buffer_at ext lkv i)
                                then rev (buffer_at ext lkv i) ! (k - 1) else None))
          \<and> external_entry None (''lag_'' @ show_nat k) = None)
    \<and> (w = 3 \<or> w = 6 \<or> w = 12 \<longrightarrow>
          map_of (fr_vals (build_future_features last_date n cat lkv ext ! i))
              (''rolling_mean_'' @ show_nat w)
            = (case external_entry ext (''rolling_mean_'' @ show_nat w) of
                 Some v \<Rightarrow> Some v
               | None \<Rightarrow> Some (if w \<le> length (buffer_at ext lkv i)
                                then nan_mean (last_n w (buffer_at ext lkv i))
                                else if buffer_at ext lkv i = [] then Some 0
                                else nan_mean (buffer_at ext lkv i)))
          \<and> map_of (fr_vals (build_future_features last_date n cat lkv ext ! i))
              (''rolling_std_'' @ show_nat w)
            = (case external_entry ext (''rolling_std_'' @ show_nat w) of
                 Some v \<Rightarrow> Some v
               | None \<Rightarrow> Some (if w \<le> length (buffer_at ext lkv i)
                                then nan_std (last_n w (buffer_at ext lkv i))
                                else Some 0))
          \<and> external_entry None (''rolling_mean_'' @ show_nat w) = None
          \<and> external_entry None (''rolling_std_'' @ show_nat w) = None)"
proof -
  let ?B = "buffer_at ext lkv i"
  let ?row = "build_future_features last_date n cat lkv ext ! i"
  have len: "length (build_future_features last_date n cat lkv ext) = n"
    by (rule length_build_future_features)
  have ph: "map_of (fr_vals ?row) ''rolling_mean_3'' = Some (last (buffer_at ext lkv (Suc i)))"
    using future_row_placeholder [OF assms] by simp
  have lag: "map_of (fr_vals ?row) (''lag_'' @ show_nat k)
      = (case external_entry ext (''lag_'' @ show_nat k) of
           Some v \<Rightarrow> Some v
         | None \<Rightarrow> Some (if k \<le> length ?B then rev ?B ! (k - 1) else None))"
    if "k = 1 \<or> k = 2 \<or> k = 3 \<or> k = 6 \<or> k = 12"
  proof -
    have "1 \<le> k" using that by auto
    then have "history_lag ?B k = (if k \<le> length ?B then rev ?B ! (k - 1) else None)"
      by (simp add: history_lag_def rev_nth)
    then show ?thesis
      unfolding future_row_nth [OF assms] row_lookup computed_lookup_lag [OF that]
      by (simp split: option.splits)
  qed
  have rmean: "map_of (fr_vals ?row) (''rolling_mean_'' @ show_nat w)
      = (case external_entry ext (''rolling_mean_'' @ show_nat w) of
           Some v \<Rightarrow> Some v
         | None \<Rightarrow> Some (if w \<le> length ?B then nan_mean (last_n w ?B)
                          else if ?B = [] then Some 0 else nan_mean ?B))"
    if "w = 3 \<or> w = 6 \<or> w = 12"
    unfolding future_row_nth [OF assms] row_lookup computed_lookup_rolling_mean [OF that]
    by (simp add: computed_rolling_mean_def split: option.splits)
  have rstd: "map_of (fr_vals ?row) (''rolling_std_'' @ show_nat w)
      = (case external_entry ext (''rolling_std_'' @ show_nat w) of
           Some v \<Rightarrow> Some v
         | None \<Rightarrow> Some (if w \<le> length ?B then nan_std (last_n w ?B) else Some 0))"
    if "w = 3 \<or> w = 6 \<or> w = 12"
    unfolding future_row_nth [OF assms] row_lookup computed_lookup_rolling_std [OF that]
    by (simp add: computed_rolling_std_def split: option.splits)
  show ?thesis
    using len ph lag rmean rstd external_entry_None_computed(1) [of k]
      external_entry_None_computed(2) [of w] external_entry_None_computed(3) [of w]
    by simp
qed

theorem future_rows_from_history_buffer_witness:
  "(1::nat) < 2
   \<and> buffer_at None [Some 1, Some 2, Some 6] 1 = [Some 1, Some 2, Some 6, Some 3]
   \<and> map_of (fr_vals (build_future_features \<lparr>d_year = 2024, d_month = 12, d_day = 1\<rparr> 2
         ''Cefixime'' [Some 1, Some 2, Some 6] None ! 1)) ''lag_1'' = Some (Some 3)
   \<and> map_of (fr_vals (build_future_features \<lparr>d_year = 2024, d_month = 12, d_day = 1\<rparr> 2
         ''Cefixime'' [Some 1, Some 2, Some 6] None ! 1)) ''rolling_mean_3'' = Some (Some (11 / 3))
   \<and> map_of (fr_vals (build_future_features \<lparr>d_year = 2024, d_month = 12, d_day = 1\<rparr> 2
         ''Cefixime'' [Some 1, Some 2, Some 6] None ! 1)) ''rolling_mean_6'' = Some (Some 3)"
proof -
  have ext: "external_entry None ''rolling_mean_3'' = None"
    by (simp add: external_entry_def ext_defaults_def)
  have ph1: "row_placeholder None [Some 1, Some 2, Some 6] = Some 3"
    by (simp add: row_placeholder_def ext computed_rolling_mean_def last_n_def nan_mean_def
        np_mean_def)
  have ph2: "row_placeholder None [Some 1, Some 2, Some 6, Some 3] = Some (11 / 3)"
    by (simp add: row_placeholder_def ext computed_rolling_mean_def last_n_def nan_mean_def
        np_mean_def)
  have buf: "buffer_at None [Some 1, Some 2, Some 6] 1 = [Some 1, Some 2, Some 6, Some 3]"
    by (simp add: ph1)
  have lt: "(1::nat) < 2" by simp
  note inst1 = future_rows_from_history_buffer [OF lt,
      of "\<lparr>d_year = 2024, d_month = 12, d_day = 1\<rparr>" "''Cefixime''"
         "[Some 1, Some 2, Some 6]" None 1 3]
  note inst2 = future_rows_from_history_buffer [OF lt,
      of "\<lparr>d_year = 2024, d_month = 12, d_day = 1\<rparr>" "''Cefixime''"
         "[Some 1, Some 2, Some 6]" None 1 6]
  have a: "map_of (fr_vals (build_future_features \<lparr>d_year = 2024, d_month = 12, d_day = 1\<rparr> 2
         ''Cefixime'' [Some 1, Some 2, Some 6] None ! 1)) ''lag_1'' = Some (Some 3)"
    using inst1 by (simp add: show_nat_small ph1 ph2)
  have b: "map_of (fr_vals (build_future_features \<lparr>d_year = 2024, d_month = 12, d_day = 1\<rparr> 2
         ''Cefixime'' [Some 1, Some 2, Some 6] None ! 1)) ''rolling_mean_3'' = Some (Some (11 / 3))"
    using inst1 by (simp add: show_nat_small ph1 ph2)
  have c: "map_of (fr_vals (build_future_features \<lparr>d_year = 2024, d_month = 12, d_day = 1\<rparr> 2
         ''Cefixime'' [Some 1, Some 2, Some 6] None ! 1)) ''rolling_mean_6'' = Some (Some 3)"
    using inst2 by (simp add: show_nat_small ph1 ph2 nan_mean_def np_mean_def)
  from lt buf a b c show ?thesis by blast
qed

section \<open>Properties of the seasonal-autoregressive adapter\<close>

text \<open>The training frame and training series of the adapter, and two example
  libraries: one whose fitting routines all raise, and a naive one that forecasts the
  last training value and cannot fit the default SARIMAX order.\<close>

definition sarimax_train :: "dataframe \<Rightarrow> int \<Rightarrow> dataframe" where
  "sarimax_train df y = df_filter (year_mask (df_sort df) y) (df_sort df)"

definition sarimax_y_train :: "dataframe \<Rightarrow> int \<Rightarrow> series \<Rightarrow> (pydate \<times> real) list" where
  "sarimax_y_train df y units =
     zip (dates (sarimax_train df y)) (filled_values (ffill_from None units))"

definition failing_libs :: "(unit, unit, unit) ml_libs" where
  "failing_libs =
     \<lparr>prophet_installed = True,
      prophet_fit = (\<lambda>rows. Inl (LibraryError ''prophet: fit failed'')),
      prophet_predict = (\<lambda>m ds. Inl (LibraryError ''prophet: predict failed'')),
      xgboost_installed = True,
      xgb_fit = (\<lambda>X y. Inl (LibraryError ''xgboost: fit failed'')),
      xgb_predict = (\<lambda>m X. Inl (LibraryError ''xgboost: predict failed'')),
      sarimax_fit = (\<lambda>ord y exog. Inl (LibraryError (if ord = default_order
                                      then ''LinAlgError'' else ''singular matrix''))),
      sarimax_forecast = (\<lambda>m steps exog. Inl (LibraryError ''sarimax: forecast failed''))\<rparr>"

definition naive_libs :: "(real, real, real) ml_libs" where
  "naive_libs =
     \<lparr>prophet_installed = True,
      prophet_fit = (\<lambda>rows. Inr (snd (last rows))),
      prophet_predict = (\<lambda>m ds. Inr (replicate (length ds) m)),
      xgboost_installed = True,
      xgb_fit = (\<lambda>X y. Inr (last y)),
      xgb_predict = (\<lambda>m X. Inr (replicate (length X) m)),
      sarimax_fit = (\<lambda>ord y exog. if ord = default_order then Inl (LibraryError ''LinAlgError'')
                                  else Inr (snd (last y))),
      sarimax_forecast = (\<lambda>m steps exog. Inr (replicate steps m))\<rparr>"

text \<open>A frame of \<open>n\<close> consecutive months after a date, with the units 1, 2, ... and one
  external column.\<close>

definition monthly_frame :: "pydate \<Rightarrow> nat \<Rightarrow> dataframe" where
  "monthly_frame start n =
     \<lparr>dates = future_dates start n,
      columns = [(''units_sold'', map (\<lambda>i. Some (of_nat (i + 1))) [0..<n]),
                 (''disease_index'', map (\<lambda>i. Some (if even i then 1 else 3)) [0..<n])]\<rparr>"

lemma df_get_all_available:
  "list_all (has_column df) cs \<Longrightarrow>
   df_get_all df cs = Inr (map (\<lambda>c. the (map_of (columns df) c)) cs)"
  by (induction cs) (auto simp: has_column_def df_get_def)

lemma sarimax_exog_mean_fill:
  assumes "filter (has_column train) cols \<noteq> []"
  shows "sarimax_exog train (Some cols) None
           = Inr (Some
               (rows_of (df_len train)
                  (map (\<lambda>c. filled_values (the (map_of (columns train) c)))
                     (filter (has_column train) cols)),
                replicate 12
                  (map (\<lambda>c. np_mean (filled_values (the (map_of (columns train) c))))
                     (filter (has_column train) cols))))"
proof -
  have "list_all (has_column train) (filter (has_column train) cols)"
    by (simp add: list_all_iff)
  then have "df_get_all train (filter (has_column train) cols)
      = Inr (map (\<lambda>c. the (map_of (columns train) c)) (filter (has_column train) cols))"
    by (rule df_get_all_available)
  moreover have "cols \<noteq> []" using assms by auto
  ultimately show ?thesis
    using assms by (simp add: sarimax_exog_def Let_def column_means_def comp_def)
qed

lemma sarimax_predict_calls:
  "fst (sarimax_predict libs calls r xf) = calls @ [SarimaxForecast 12 xf]"
  by (simp add: sarimax_predict_def split: sum.splits)

lemma sarimax_unfold:
  assumes "df_get (sarimax_train df y) ''units_sold'' = Inr units"
  shows "train_and_predict_sarimax libs df y exog_cols fut =
     (let y_train = sarimax_y_train df y units
      in if length y_train < 24
         then ([], Inl (ValueError (insufficient_message (length y_train) 24)))
         else
           (case sarimax_exog (sarimax_train df y) exog_cols fut of
              Inl e \<Rightarrow> ([], Inl e)
            | Inr exog \<Rightarrow>
                (case sarimax_fit libs default_order y_train (map_option fst exog) of
                   Inr result \<Rightarrow>
                     sarimax_predict libs
                       [SarimaxFit default_order y_train (map_option fst exog)]
                       result (map_option snd exog)
                 | Inl e \<Rightarrow>
                     (case sarimax_fit libs simple_order y_train (map_option fst exog) of
                        Inr result \<Rightarrow>
                          sarimax_predict libs
                            [SarimaxFit default_order y_train (map_option fst exog),
                             SarimaxFit simple_order y_train (map_option fst exog)]
                            result (map_option snd exog)
                      | Inl e2 \<Rightarrow>
                          ([SarimaxFit default_order y_train (map_option fst exog),
                            SarimaxFit simple_order y_train (map_option fst exog)],
                           Inl (RuntimeError
                             (''SARIMAX training failed: '' @ py_str e @ '' | ''
                              @ py_str e2)))))))"
  using assms
  unfolding train_and_predict_sarimax_def sarimax_train_def sarimax_y_train_def Let_def
  by simp

definition two_years :: dataframe where
  "two_years = monthly_frame \<lparr>d_year = 2022, d_month = 12, d_day = 1\<rparr> 24"

definition two_years_units :: series where
  "two_years_units = map (\<lambda>i. Some (of_nat (i + 1))) [0..<24]"

lemma select_rows_map: "select_rows (map P xs) xs = filter P xs"
  by (induction xs) (simp_all add: select_rows_def)

lemma dates_year_filter: "dates (df_filter (year_mask df y) df) = filter (\<lambda>d. d_year d < y) (dates df)"
  by (simp add: df_filter_def year_mask_def select_rows_map)

lemma sarimax_train_years: "list_all (\<lambda>d. d_year d < y) (dates (sarimax_train df y))"
  by (simp add: sarimax_train_def dates_year_filter list_all_iff)

lemma show_nat_24: "show_nat 24 = ''24''"
  by code_simp

lemma insufficient_message_24:
  "insufficient_message n 24
     = ''Insufficient training data: '' @ show_nat n @ '' rows (need '' @ GE_SIGN @ '' 24)''"
  by (simp add: insufficient_message_def show_nat_24)

text \<open>Example frames: 24 months from February 2023 to January 2025, of which 23 lie
  before 2025; and 25 months from January 2023 to January 2025 with a promotion column
  that is NaN after its first row and a disease index alternating between 1 and 3, the
  row of January 2025 carrying values that would change every mean.\<close>

definition short_frame :: dataframe where
  "short_frame = monthly_frame \<lparr>d_year = 2023, d_month = 1, d_day = 1\<rparr> 24"

definition promo_frame :: dataframe where
  "promo_frame =
     \<lparr>dates = future_dates \<lparr>d_year = 2022, d_month = 12, d_day = 1\<rparr> 25,
      columns =
        [(''units_sold'', map (\<lambda>i. Some (of_nat (i + 1))) [0..<25]),
         (''promotion_flag'',
            map (\<lambda>i. if i = 0 then Some 24 else if i = 24 then Some 1000 else None) [0..<25]),
         (''disease_index'',
            map (\<lambda>i. Some (if i = 24 then 100 else if even i then 1 else 3)) [0..<25])]\<rparr>"

definition promo_cols :: "string list" where
  "promo_cols = [''promotion_flag'', ''holiday_flag'', ''disease_index'']"

definition promo_y_train :: "(pydate \<times> real) list" where
  "promo_y_train =
     zip (map (\<lambda>m. \<lparr>d_year = 2023, d_month = m, d_day = 1\<rparr>) [1..<13]
          @ map (\<lambda>m. \<lparr>d_year = 2024, d_month = m, d_day = 1\<rparr>) [1..<13])
         (map of_nat [1..<25])"

definition promo_exog_train :: "real list list" where
  "promo_exog_train = map (\<lambda>i. [if i = 0 then 24 else 0, if even i then 1 else 3]) [0..<24]"

lemma short_units:
  "df_get (sarimax_train short_frame 2025) ''units_sold''
     = Inr (map (\<lambda>i. Some (of_nat (i + 1))) [0..<23])"
  by code_simp

lemma short_length:
  "length (sarimax_y_train short_frame 2025 (map (\<lambda>i. Some (of_nat (i + 1))) [0..<23])) = 23"
  by code_simp

lemma show_nat_23: "show_nat 23 = ''23''"
  by code_simp

lemma promo_units:
  "df_get (sarimax_train promo_frame 2025) ''units_sold''
     = Inr (map (\<lambda>i. Some (of_nat (i + 1))) [0..<24])"
  by code_simp

lemma promo_y:
  "sarimax_y_train promo_frame 2025 (map (\<lambda>i. Some (of_nat (i + 1))) [0..<24]) = promo_y_train"
  by code_simp

lemma promo_y_length: "length promo_y_train = 24"
  by code_simp

lemma promo_y_last: "snd (last promo_y_train) = 24"
  by code_simp

lemma promo_available:
  "filter (has_column (sarimax_train promo_frame 2025)) promo_cols
     = [''promotion_flag'', ''disease_index'']"
  by code_simp

lemma promo_len: "df_len (sarimax_train promo_frame 2025) = 24"
  by code_simp

lemma promo_rows:
  "rows_of 24
     (map (\<lambda>c. filled_values (the (map_of (columns (sarimax_train promo_frame 2025)) c)))
        [''promotion_flag'', ''disease_index'']) = promo_exog_train"
  by code_simp

lemma promo_means:
  "map (\<lambda>c. np_mean (filled_values (the (map_of (columns (sarimax_train promo_frame 2025)) c))))
        [''promotion_flag'', ''disease_index''] = [1, 2]"
  by code_simp

lemma two_years_units: "df_get (sarimax_train two_years 2025) ''units_sold'' = Inr two_years_units"
  by code_simp

lemma two_years_y: "sarimax_y_train two_years 2025 two_years_units = promo_y_train"
  by code_simp

text \<open>
  Claim C9. The seasonal-autoregressive adapter trains on the rows of the sorted frame
  whose year is below the target year, and fails with the error
  Insufficient training data: n rows (need at least 24) whenever that training series
  has n < 24 rows, before any fit. When exogenous columns are used and no future
  exogenous frame is supplied, the 12 future exogenous rows are the historical means of
  the columns present in the frame (NaN counted as 0), replicated 12 times. With a
  sufficient series, the order (1,1,1)(1,1,1,12) is fitted first; when that raises, the
  order (1,0,0)(1,0,0,12) is fitted exactly once more, and when that raises too the
  adapter fails with one error that carries both messages. Every forecast is one call
  for 12 steps with the future exogenous rows.
\<close>

theorem sarimax_threshold_fill_retry:
  assumes "df_get (sarimax_train df y) ''units_sold'' = Inr units"
  shows "list_all (\<lambda>d. d_year d < y) (dates (sarimax_train df y))
    \<and> (length (sarimax_y_train df y units) < 24 \<longrightarrow>
         train_and_predict_sarimax libs df y exog_cols fut
           = ([], Inl (ValueError
                 (''Insufficient training data: ''
                  @ show_nat (length (sarimax_y_train df y units))
                  @ '' rows (need '' @ GE_SIGN @ '' 24)''))))
    \<and> (filter (has_column (sarimax_train df y)) cols \<noteq> [] \<longrightarrow>
         sarimax_exog (sarimax_train df y) (Some cols) None
           = Inr (Some
               (rows_of (df_len (sarimax_train df y))
                  (map (\<lambda>c. filled_values (the (map_of (columns (sarimax_train df y)) c)))
                     (filter (has_column (sarimax_train df y)) cols)),
                replicate 12
                  (map (\<lambda>c. np_mean (filled_values (the (map_of (columns (sarimax_train df y)) c))))
                     (filter (has_column (sarimax_train df y)) cols)))))
    \<and> (24 \<le> length (sarimax_y_train df y units)
        \<and> sarimax_exog (sarimax_train df y) exog_cols fut = Inr exog \<longrightarrow>
         (sarimax_fit libs ((1, 1, 1), (1, 1, 1, 12)) (sarimax_y_train df y units)
              (map_option fst exog) = Inr r
            \<longrightarrow> train_and_predict_sarimax libs df y exog_cols fut
                  = sarimax_predict libs
                      [SarimaxFit ((1, 1, 1), (1, 1, 1, 12)) (sarimax_y_train df y units)
                         (map_option fst exog)]
                      r (map_option snd exog))
       \<and> (sarimax_fit libs ((1, 1, 1), (1, 1, 1, 12)) (sarimax_y_train df y units)
              (map_option fst exog) = Inl e
          \<and> sarimax_fit libs ((1, 0, 0), (1, 0, 0, 12)) (sarimax_y_train df y units)
              (map_option fst exog) = Inr r
            \<longrightarrow> train_and_predict_sarimax libs df y exog_cols fut
                  = sarimax_predict libs
                      [SarimaxFit ((1, 1, 1), (1, 1, 1, 12)) (sarimax_y_train df y units)
                         (map_option fst exog),
                       SarimaxFit ((1, 0, 0), (1, 0, 0, 12)) (sarimax_y_train df y units)
                         (map_option fst exog)]
                      r (map_option snd exog))
       \<and> (sarimax_fit libs ((1, 1, 1), (1, 1, 1, 12)) (sarimax_y_train df y units)
              (map_option fst exog) = Inl e
          \<and> sarimax_fit libs ((1, 0, 0), (1, 0, 0, 12)) (sarimax_y_train df y units)
              (map_option fst exog) = Inl e2
            \<longrightarrow> train_and_predict_sarimax libs df y exog_cols fut
                  = ([SarimaxFit ((1, 1, 1), (1, 1, 1, 12)) (sarimax_y_train df y units)
                        (map_option fst exog),
                      SarimaxFit ((1, 0, 0), (1, 0, 0, 12)) (sarimax_y_train df y units)
                        (map_option fst exog)],
                     Inl (RuntimeError
                       (''SARIMAX training failed: '' @ py_str e @ '' | '' @ py_str e2)))))
    \<and> sarimax_predict libs calls r xf =
        (calls @ [SarimaxForecast 12 xf],
         case sarimax_forecast libs r 12 xf of
           Inl e \<Rightarrow> Inl (RuntimeError (''Prediction failed: '' @ py_str e))
         | Inr preds \<Rightarrow> Inr (map (max 0) preds, r))"
proof -
  note unfolded = sarimax_unfold [OF assms, of libs exog_cols fut,
      unfolded default_order_def simple_order_def insufficient_message_24]
  have short: "length (sarimax_y_train df y units) < 24 \<longrightarrow>
      train_and_predict_sarimax libs df y exog_cols fut
        = ([], Inl (ValueError
                 (''Insufficient training data: ''
                  @ show_nat (length (sarimax_y_train df y units))
                  @ '' rows (need '' @ GE_SIGN @ '' 24)'')))"
    unfolding unfolded by (simp add: Let_def)
  have fill: "filter (has_column (sarimax_train df y)) cols \<noteq> [] \<longrightarrow>
      sarimax_exog (sarimax_train df y) (Some cols) None
        = Inr (Some
            (rows_of (df_len (sarimax_train df y))
               (map (\<lambda>c. filled_values (the (map_of (columns (sarimax_train df y)) c)))
                  (filter (has_column (sarimax_train df y)) cols)),
             replicate 12
               (map (\<lambda>c. np_mean (filled_values (the (map_of (columns (sarimax_train df y)) c))))
                  (filter (has_column (sarimax_train df y)) cols))))"
    using sarimax_exog_mean_fill by blast
  have fits: "24 \<le> length (sarimax_y_train df y units)
        \<and> sarimax_exog (sarimax_train df y) exog_cols fut = Inr exog \<longrightarrow>
         (sarimax_fit libs ((1, 1, 1), (1, 1, 1, 12)) (sarimax_y_train df y units)
              (map_option fst exog) = Inr r
            \<longrightarrow> train_and_predict_sarimax libs df y exog_cols fut
                  = sarimax_predict libs
                      [SarimaxFit ((1, 1, 1), (1, 1, 1, 12)) (sarimax_y_train df y units)
                         (map_option fst exog)]
                      r (map_option snd exog))
       \<and> (sarimax_fit libs ((1, 1, 1), (1, 1, 1, 12)) (sarimax_y_train df y units)
              (map_option fst exog) = Inl e
          \<and> sarimax_fit libs ((1, 0, 0), (1, 0, 0, 12)) (sarimax_y_train df y units)
              (map_option fst exog) = Inr r
            \<longrightarrow> train_and_predict_sarimax libs df y exog_cols fut
                  = sarimax_predict libs
                      [SarimaxFit ((1, 1, 1), (1, 1, 1, 12)) (sarimax_y_train df y units)
                         (map_option fst exog),
                       SarimaxFit ((1, 0, 0), (1, 0, 0, 12)) (sarimax_y_train df y units)
                         (map_option fst exog)]
                      r (map_option snd exog))
       \<and> (sarimax_fit libs ((1, 1, 1), (1, 1, 1, 12)) (sarimax_y_train df y units)
              (map_option fst exog) = Inl e
          \<and> sarimax_fit libs ((1, 0, 0), (1, 0, 0, 12)) (sarimax_y_train df y units)
              (map_option fst exog) = Inl e2
            \<longrightarrow> train_and_predict_sarimax libs df y exog_cols fut
                  = ([SarimaxFit ((1, 1, 1), (1, 1, 1, 12)) (sarimax_y_train df y units)
                        (map_option fst exog),
                      SarimaxFit ((1, 0, 0), (1, 0, 0, 12)) (sarimax_y_train df y units)
                        (map_option fst exog)],
                     Inl (RuntimeError
                       (''SARIMAX training failed: '' @ py_str e @ '' | '' @ py_str e2))))"
    unfolding unfolded by (simp add: Let_def)
  have predict: "sarimax_predict libs calls r xf =
        (calls @ [SarimaxForecast 12 xf],
         case sarimax_forecast libs r 12 xf of
           Inl e \<Rightarrow> Inl (RuntimeError (''Prediction failed: '' @ py_str e))
         | Inr preds \<Rightarrow> Inr (map (max 0) preds, r))"
    by (simp add: sarimax_predict_def clip0_def split: sum.splits)
  from sarimax_train_years [of y df] short fill fits predict
  show ?thesis by blast
qed

text \<open>The claim at concrete inputs. A frame with 23 rows before 2025 is refused with
  the message for 23 rows, whatever the libraries. On the promotion frame, with a library
  whose fit rejects the order (1,1,1)(1,1,1,12), the column missing from the frame is
  left out, the future exogenous rows are 12 copies of the means 1 and 2 of the rows
  before 2025, and the calls are the two fits and one forecast. With a library that
  fits at once there is one fit, and with one whose fits all raise there are two fits
  and the error names both failures.\<close>

theorem sarimax_threshold_fill_retry_witness:
  "df_get (sarimax_train short_frame 2025) ''units_sold''
     = Inr (map (\<lambda>i. Some (of_nat (i + 1))) [0..<23])
   \<and> length (sarimax_y_train short_frame 2025 (map (\<lambda>i. Some (of_nat (i + 1))) [0..<23])) = 23
   \<and> train_and_predict_sarimax naive_libs short_frame 2025 (Some [''disease_index'']) None
       = ([], Inl (ValueError
            (''Insufficient training data: 23 rows (need '' @ GE_SIGN @ '' 24)'')))
   \<and> df_get (sarimax_train promo_frame 2025) ''units_sold''
       = Inr (map (\<lambda>i. Some (of_nat (i + 1))) [0..<24])
   \<and> sarimax_y_train promo_frame 2025 (map (\<lambda>i. Some (of_nat (i + 1))) [0..<24]) = promo_y_train
   \<and> length promo_y_train = 24
   \<and> filter (has_column (sarimax_train promo_frame 2025))
        [''promotion_flag'', ''holiday_flag'', ''disease_index'']
       = [''promotion_flag'', ''disease_index'']
   \<and> sarimax_exog (sarimax_train promo_frame 2025)
        (Some [''promotion_flag'', ''holiday_flag'', ''disease_index'']) None
       = Inr (Some (promo_exog_train, replicate 12 [1, 2]))
   \<and> train_and_predict_sarimax naive_libs promo_frame 2025
        (Some [''promotion_flag'', ''holiday_flag'', ''disease_index'']) None
       = ([SarimaxFit ((1, 1, 1), (1, 1, 1, 12)) promo_y_train (Some promo_exog_train),
           SarimaxFit ((1, 0, 0), (1, 0, 0, 12)) promo_y_train (Some promo_exog_train),
           SarimaxForecast 12 (Some (replicate 12 [1, 2]))],
          Inr (replicate 12 24, 24))
   \<and> train_and_predict_sarimax
        (naive_libs\<lparr>sarimax_fit := \<lambda>ord y exog. Inr (snd (last y))\<rparr>) promo_frame 2025
        (Some [''promotion_flag'', ''holiday_flag'', ''disease_index'']) None
       = ([SarimaxFit ((1, 1, 1), (1, 1, 1, 12)) promo_y_train (Some promo_exog_train),
           SarimaxForecast 12 (Some (replicate 12 [1, 2]))],
          Inr (replicate 12 24, 24))
   \<and> df_get (sarimax_train two_years 2025) ''units_sold'' = Inr two_years_units
   \<and> sarimax_y_train two_years 2025 two_years_units = promo_y_train
   \<and> sarimax_exog (sarimax_train two_years 2025) None None = Inr None
   \<and> train_and_predict_sarimax failing_libs two_years 2025 None None
       = ([SarimaxFit ((1, 1, 1), (1, 1, 1, 12)) promo_y_train None,
           SarimaxFit ((1, 0, 0), (1, 0, 0, 12)) promo_y_train None],
          Inl (RuntimeError ''SARIMAX training failed: LinAlgError | singular matrix''))"
proof -
  let ?cols = "[''promotion_flag'', ''holiday_flag'', ''disease_index'']"
  let ?o1 = "((1, 1, 1), (1, 1, 1, 12)) :: sarimax_order"
  let ?o2 = "((1, 0, 0), (1, 0, 0, 12)) :: sarimax_order"
  let ?once = "naive_libs\<lparr>sarimax_fit := \<lambda>ord y exog. Inr (snd (last y))\<rparr>"
  have short: "train_and_predict_sarimax naive_libs short_frame 2025 (Some [''disease_index'']) None
       = ([], Inl (ValueError
            (''Insufficient training data: 23 rows (need '' @ GE_SIGN @ '' 24)'')))"
    using sarimax_threshold_fill_retry [OF short_units, where libs = naive_libs
        and exog_cols = "Some [''disease_index'']" and fut = None,
        THEN conjunct2, THEN conjunct1]
    unfolding short_length show_nat_23 by simp
  have available: "filter (has_column (sarimax_train promo_frame 2025)) ?cols
       = [''promotion_flag'', ''disease_index'']"
    using promo_available by (simp add: promo_cols_def)
  have exog: "sarimax_exog (sarimax_train promo_frame 2025) (Some ?cols) None
       = Inr (Some (promo_exog_train, replicate 12 [1, 2]))"
    using sarimax_threshold_fill_retry [OF promo_units, where cols = ?cols,
        THEN conjunct2, THEN conjunct2, THEN conjunct1]
    unfolding available promo_len promo_rows promo_means by simp
  have fit1: "sarimax_fit naive_libs ?o1 promo_y_train (Some promo_exog_train)
       = Inl (LibraryError ''LinAlgError'')"
    by (simp add: naive_libs_def default_order_def)
  have fit2: "sarimax_fit naive_libs ?o2 promo_y_train (Some promo_exog_train) = Inr 24"
    by (simp add: naive_libs_def default_order_def promo_y_last)
  have forecast: "sarimax_forecast naive_libs 24 12 (Some (replicate 12 [1, 2]))
       = Inr (replicate 12 24)"
    by (simp add: naive_libs_def)
  have retry: "train_and_predict_sarimax naive_libs promo_frame 2025 (Some ?cols) None
       = ([SarimaxFit ?o1 promo_y_train (Some promo_exog_train),
           SarimaxFit ?o2 promo_y_train (Some promo_exog_train),
           SarimaxForecast 12 (Some (replicate 12 [1, 2]))],
          Inr (replicate 12 24, 24))"
    using sarimax_threshold_fill_retry [OF promo_units, where libs = naive_libs
        and exog_cols = "Some ?cols" and fut = None
        and exog = "Some (promo_exog_train, replicate 12 [1, 2])"
        and e = "LibraryError ''LinAlgError''" and r = 24
        and calls = "[SarimaxFit ?o1 promo_y_train (Some promo_exog_train),
                      SarimaxFit ?o2 promo_y_train (Some promo_exog_train)]"
        and xf = "Some (replicate 12 [1, 2])",
        THEN conjunct2, THEN conjunct2, THEN conjunct2]
    unfolding promo_y option.map fst_conv snd_conv promo_y_length exog fit1 fit2 forecast
    by simp
  have fit_once: "sarimax_fit ?once ?o1 promo_y_train (Some promo_exog_train) = Inr 24"
    by (simp add: promo_y_last)
  have forecast_once: "sarimax_forecast ?once 24 12 (Some (replicate 12 [1, 2]))
       = Inr (replicate 12 24)"
    by (simp add: naive_libs_def)
  have once: "train_and_predict_sarimax ?once promo_frame 2025 (Some ?cols) None
       = ([SarimaxFit ?o1 promo_y_train (Some promo_exog_train),
           SarimaxForecast 12 (Some (replicate 12 [1, 2]))],
          Inr (replicate 12 24, 24))"
    using sarimax_threshold_fill_retry [OF promo_units, where libs = ?once
        and exog_cols = "Some ?cols" and fut = None
        and exog = "Some (promo_exog_train, replicate 12 [1, 2])" and r = 24
        and calls = "[SarimaxFit ?o1 promo_y_train (Some promo_exog_train)]"
        and xf = "Some (replicate 12 [1, 2])",
        THEN conjunct2, THEN conjunct2, THEN conjunct2]
    unfolding promo_y option.map fst_conv snd_conv promo_y_length exog fit_once forecast_once
    by simp
  have none: "sarimax_exog (sarimax_train two_years 2025) None None = Inr None"
    by (simp add: sarimax_exog_def)
  have fail1: "sarimax_fit failing_libs ?o1 promo_y_train None
       = Inl (LibraryError ''LinAlgError'')"
    by (simp add: failing_libs_def default_order_def)
  have fail2: "sarimax_fit failing_libs ?o2 promo_y_train None
       = Inl (LibraryError ''singular matrix'')"
    by (simp add: failing_libs_def default_order_def)
  have both: "train_and_predict_sarimax failing_libs two_years 2025 None None
       = ([SarimaxFit ?o1 promo_y_train None, SarimaxFit ?o2 promo_y_train None],
          Inl (RuntimeError ''SARIMAX training failed: LinAlgError | singular matrix''))"
    using sarimax_threshold_fill_retry [OF two_years_units, where libs = failing_libs
        and exog_cols = None and fut = None and exog = None
        and e = "LibraryError ''LinAlgError''" and ?e2.0 = "LibraryError ''singular matrix''",
        THEN conjunct2, THEN conjunct2, THEN conjunct2, THEN conjunct1]
    unfolding two_years_y option.map promo_y_length none fail1 fail2
    by simp
  show ?thesis
    apply (intro conjI)
    apply (rule short_units short_length short promo_units promo_y promo_y_length
        available exog retry once two_years_units two_years_y none both)+
    done
qed
section \<open>Properties of the forecast orchestrator\<close>

text \<open>Example inputs: twelve monthly documents of 2024 for one product, a connected
  store that holds them, and requests for that product.\<close>

definition year_2024_docs :: "sales_doc list" where
  "year_2024_docs = map (\<lambda>i. month_doc 2024 (i + 1) (of_nat (i + 1))) [0..<12]"

definition example_env :: db_env where
  "example_env = \<lparr>connected = True, sales_data = (\<lambda>p. if p = ''Cefspan'' then year_2024_docs else [])\<rparr>"

definition example_request :: "string \<Rightarrow> int \<Rightarrow> forecast_request" where
  "example_request m y =
     \<lparr>req_product = ''Cefspan'', req_category = Some ''Cefixime'', req_model = m, req_year = y\<rparr>"

lemma try_fallbacks_all_fail:
  "list_all (\<lambda>f. isl (run f)) fbs \<Longrightarrow>
   try_fallbacks run fbs errors tried
     = (tried @ fbs,
        Inl (errors @ map (\<lambda>f. ''Fallback '' @ f @ '': '' @ py_str (projl (run f))) fbs))"
proof (induction fbs arbitrary: errors tried)
  case Nil
  show ?case by simp
next
  case (Cons f fbs)
  from Cons.prems obtain e where e: "run f = Inl e"
    by (cases "run f") simp_all
  from Cons.prems have rest: "list_all (\<lambda>f. isl (run f)) fbs" by simp
  show ?case
    by (simp add: e Cons.IH [OF rest])
qed

lemma try_fallbacks_first_success:
  "list_all (\<lambda>f. isl (run f)) pre \<Longrightarrow> run fb = Inr preds \<Longrightarrow>
   try_fallbacks run (pre @ fb # post) errors tried
     = (tried @ pre @ [fb], Inr (fb @ '' (fallback)'', preds))"
proof (induction pre arbitrary: errors tried)
  case Nil
  then show ?case by simp
next
  case (Cons f pre)
  from Cons.prems(1) obtain e where e: "run f = Inl e"
    by (cases "run f") simp_all
  from Cons.prems(1) have rest: "list_all (\<lambda>f. isl (run f)) pre" by simp
  show ?case
    by (simp add: e Cons.IH [OF rest Cons.prems(2)])
qed

lemma sublist_py_join: "x \<in> set xs \<Longrightarrow> sublist x (py_join sep xs)"
proof (induction sep xs rule: py_join.induct)
  case (1 sep)
  then show ?case by simp
next
  case (2 sep y)
  then show ?case by simp
next
  case (3 sep a b ys)
  show ?case
  proof (cases "x = a")
    case True
    then show ?thesis by simp
  next
    case False
    with 3 have "sublist x (py_join sep (b # ys))" by simp
    then obtain ps ss where "py_join sep (b # ys) = ps @ x @ ss"
      by (auto simp: sublist_def)
    then have "py_join sep (a # b # ys) = (a @ sep @ ps) @ x @ ss" by simp
    then show ?thesis unfolding sublist_def by blast
  qed
qed

lemma sublist_suffix_part: "sublist x ys \<Longrightarrow> sublist x (zs @ ys)"
  by (metis sublist_append)

lemma run_with_fallback_success:
  assumes "run primary = Inl e0"
    and "list_all (\<lambda>f. isl (run f)) pre" and "run fb = Inr preds"
  shows "run_with_fallback run primary (pre @ fb # post)
           = (primary # pre @ [fb], Inr (fb @ '' (fallback)'', preds))"
  using assms by (simp add: run_with_fallback_def try_fallbacks_first_success)

lemma run_with_fallback_all_fail:
  assumes "run primary = Inl e0" and "list_all (\<lambda>f. isl (run f)) fbs"
  shows "run_with_fallback run primary fbs
           = (primary # fbs,
              Inl (HTTPException 500
                (''All models failed. Details: ''
                 @ py_join ''; ''
                     ((''Primary '' @ primary @ '': '' @ py_str e0)
                      # map (\<lambda>f. ''Fallback '' @ f @ '': '' @ py_str (projl (run f))) fbs))))"
  using assms by (simp add: run_with_fallback_def try_fallbacks_all_fail)

lemma run_forecast_selected:
  assumes "connected env" and "sales_data env (req_product req) = docs" and "docs \<noteq> []"
    and "select_model (resolve_category docs req) (req_model req) = Inr primary"
  shows "run_forecast libs env req =
     (case run_with_fallback (model_runner libs docs req) primary
             (get_fallback_list (resolve_category docs req)) of
        (tried, Inl e) \<Rightarrow> \<lparr>attempted = tried, upserts = [], response = Inl e\<rparr>
      | (tried, Inr (name, predictions)) \<Rightarrow>
          \<lparr>attempted = tried,
           upserts = [((req_product req, req_year req),
             \<lparr>res_product = req_product req,
              res_category = resolve_category docs req,
              model_used = name,
              months = MONTH_LABELS,
              res_actual = load_actual docs (req_year req),
              res_predicted = map py_round2 predictions,
              res_metrics =
                (if MAE (calculate_metrics (load_actual docs (req_year req)) predictions) \<noteq> 0
                    \<or> list_ex (\<lambda>a. a \<noteq> ANone) (load_actual docs (req_year req))
                 then Some (calculate_metrics (load_actual docs (req_year req)) predictions)
                 else None),
              features_used = fst (snd (prepare_frames docs (resolve_category docs req) (req_year req)))\<rparr>)],
           response = Inr
             \<lparr>res_product = req_product req,
              res_category = resolve_category docs req,
              model_used = name,
              months = MONTH_LABELS,
              res_actual = load_actual docs (req_year req),
              res_predicted = map py_round2 predictions,
              res_metrics =
                (if MAE (calculate_metrics (load_actual docs (req_year req)) predictions) \<noteq> 0
                    \<or> list_ex (\<lambda>a. a \<noteq> ANone) (load_actual docs (req_year req))
                 then Some (calculate_metrics (load_actual docs (req_year req)) predictions)
                 else None),
              features_used = fst (snd (prepare_frames docs (resolve_category docs req) (req_year req)))\<rparr>\<rparr>)"
  using assms
  by (simp add: run_forecast_def Let_def split_beta split: sum.splits prod.splits)

text \<open>Two more example libraries: the naive one without the gradient-boosting
  package, and one with neither the trend-seasonal nor the gradient-boosting package.\<close>

definition prophet_only_libs :: "(real, real, real) ml_libs" where
  "prophet_only_libs = naive_libs\<lparr>xgboost_installed := False\<rparr>"

definition uninstalled_libs :: "(unit, unit, unit) ml_libs" where
  "uninstalled_libs = failing_libs\<lparr>prophet_installed := False, xgboost_installed := False\<rparr>"

definition year_2024_rows :: "(pydate \<times> real) list" where
  "year_2024_rows = map (\<lambda>i. (\<lparr>d_year = 2024, d_month = i + 1, d_day = 1\<rparr>, of_nat (i + 1))) [0..<12]"

lemma dates_df_set: "dates (df_set k v df) = dates df"
  by (simp add: df_set_def)

lemma dates_fold_df_set: "dates (fold (\<lambda>col df. df_set col (g col df) df) cols df) = dates df"
  by (induction cols arbitrary: df) (simp_all add: dates_df_set)

lemma build_features_dates:
  "dates (fst (build_features docs cat)) = map doc_date (sort_key (\<lambda>r. date_key (doc_date r)) docs)"
  unfolding build_features_def Let_def fst_conv
  by (simp only: dates_fold_df_set dates_df_set fold_simps id_apply comp_apply dataframe.simps)

lemma build_features_units:
  "map_of (columns (fst (build_features docs cat))) ''units_sold'' = Some (sorted_units docs)"
  unfolding build_features_def Let_def sorted_units_def fst_conv
  apply (subst lookup_fold_df_set_other, simp add: ext_cols_def)
  apply (subst lookup_fold_df_set_other, simp add: ext_cols_def)
  apply (simp add: lookup_df_set show_nat_small)
  done

lemma map_of_mapped_columns:
  "map_of (map (\<lambda>(name, s). (name, f s)) al) k = map_option f (map_of al k)"
  by (induction al) auto

lemma df_get_filter:
  "df_get (df_filter sel df) name
     = (case df_get df name of Inl e \<Rightarrow> Inl e | Inr s \<Rightarrow> Inr (select_rows sel s))"
  by (simp add: df_get_def df_filter_def map_of_mapped_columns split: option.splits)

lemma prophet_unfold:
  assumes "prophet_installed libs"
    and "df_get df ''units_sold'' = Inr units"
    and "known_rows (filter (\<lambda>d. d_year d < y) (dates df)) (select_rows (year_mask df y) units) = rows"
    and "12 \<le> length rows"
    and "prophet_fit libs rows = Inr m"
    and "prophet_predict libs m (year_months y) = Inr yhat"
  shows "train_and_predict_prophet libs df y
     = ([ProphetFit rows, ProphetPredict (year_months y)], Inr (clip0 yhat, m))"
  using assms
  by (simp add: train_and_predict_prophet_def Let_def df_get_filter dates_year_filter)

lemma model_runner_prophet:
  "model_runner libs docs req ''prophet''
     = snd (predictions_only
         (train_and_predict_prophet libs (fst (build_features docs (resolve_category docs req)))
            (req_year req)))"
  by (simp add: model_runner_def prepare_frames_def run_model_def Let_def split_beta)

lemma model_runner_prophet_missing:
  "\<not> prophet_installed libs \<Longrightarrow>
   model_runner libs docs req ''prophet''
     = Inl (ImportError ''prophet package not installed. Run: pip install prophet'')"
  by (simp add: model_runner_prophet train_and_predict_prophet_def predictions_only_def)

lemma model_runner_xgboost_missing:
  "\<not> xgboost_installed libs \<Longrightarrow>
   model_runner libs docs req ''xgboost''
     = Inl (ImportError ''xgboost package not installed. Run: pip install xgboost'')"
  by (simp add: model_runner_def prepare_frames_def run_model_def Let_def split_beta
      train_and_predict_xgboost_def predictions_only_def)

lemma example_category: "resolve_category year_2024_docs (example_request m y) = ''Cefixime''"
  by (simp add: resolve_category_def example_request_def)

lemma example_fallbacks: "get_fallback_list ''Cefixime'' = [''prophet'', ''xgboost'']"
  unfolding get_fallback_list_def get_category_type_lookup py_lower_Cefixime
  by (simp add: dict_get_def CATEGORY_TYPE_MAP_def TYPE_FALLBACK_MAP_def)

lemma example_sorted: "sort_key (\<lambda>r. date_key (doc_date r)) year_2024_docs = year_2024_docs"
  by code_simp

lemma example_known_rows:
  "y = 2025 \<or> y = 2030 \<Longrightarrow>
   known_rows (filter (\<lambda>d. d_year d < y) (map doc_date year_2024_docs))
     (select_rows (map (\<lambda>d. d_year d < y) (map doc_date year_2024_docs))
        (map doc_units year_2024_docs)) = year_2024_rows"
  by (elim disjE; hypsubst; code_simp)

lemma example_prophet_run:
  assumes "y = 2025 \<or> y = 2030"
  shows "model_runner prophet_only_libs year_2024_docs (example_request m y) ''prophet''
           = Inr (replicate 12 12)"
proof -
  let ?df = "fst (build_features year_2024_docs ''Cefixime'')"
  have inst: "prophet_installed prophet_only_libs"
    by (simp add: prophet_only_libs_def naive_libs_def)
  have units: "df_get ?df ''units_sold'' = Inr (map doc_units year_2024_docs)"
    by (simp add: df_get_def build_features_units sorted_units_def example_sorted)
  have rows: "known_rows (filter (\<lambda>d. d_year d < y) (dates ?df))
      (select_rows (year_mask ?df y) (map doc_units year_2024_docs)) = year_2024_rows"
    unfolding year_mask_def build_features_dates example_sorted
    by (rule example_known_rows [OF assms])
  have len: "12 \<le> length year_2024_rows"
    by (simp add: year_2024_rows_def)
  have last_row: "snd (last year_2024_rows) = 12"
    by code_simp
  have fit: "prophet_fit prophet_only_libs year_2024_rows = Inr 12"
    by (simp add: prophet_only_libs_def naive_libs_def last_row)
  have pred: "prophet_predict prophet_only_libs 12 (year_months y) = Inr (replicate 12 12)"
    by (simp add: prophet_only_libs_def naive_libs_def year_months_def)
  have "train_and_predict_prophet prophet_only_libs ?df y
      = ([ProphetFit year_2024_rows, ProphetPredict (year_months y)],
         Inr (clip0 (replicate 12 12), 12))"
    by (rule prophet_unfold [OF inst units rows len fit pred])
  moreover have "req_year (example_request m y) = y"
    by (simp add: example_request_def)
  ultimately show ?thesis
    unfolding model_runner_prophet example_category
    by (simp add: predictions_only_def clip0_def)
qed

text \<open>The report of a complete failure: one entry for the primary model and one for
  each fallback model, in the order of the attempts, each with the model's name and the
  text of its error.\<close>

definition failure_entries :: "string \<Rightarrow> py_error \<Rightarrow> (string \<times> py_error) list \<Rightarrow> string list" where
  "failure_entries primary e0 failed =
     (''Primary '' @ primary @ '': '' @ py_str e0)
     # map (\<lambda>(f, e). ''Fallback '' @ f @ '': '' @ py_str e) failed"

definition failure_detail :: "string \<Rightarrow> py_error \<Rightarrow> (string \<times> py_error) list \<Rightarrow> string" where
  "failure_detail primary e0 failed =
     ''All models failed. Details: '' @ py_join ''; '' (failure_entries primary e0 failed)"

lemma failure_entries_map:
  "failure_entries primary e0 (map (\<lambda>f. (f, projl (run f))) fbs)
     = (''Primary '' @ primary @ '': '' @ py_str e0)
       # map (\<lambda>f. ''Fallback '' @ f @ '': '' @ py_str (projl (run f))) fbs"
  by (simp add: failure_entries_def comp_def)

lemma failure_detail_contains:
  "list_all (\<lambda>entry. sublist entry (failure_detail primary e0 failed))
     (failure_entries primary e0 failed)"
proof -
  have "sublist entry (failure_detail primary e0 failed)"
    if "entry \<in> set (failure_entries primary e0 failed)" for entry
    unfolding failure_detail_def
    by (rule sublist_suffix_part, rule sublist_py_join, rule that)
  then show ?thesis
    unfolding list_all_iff by blast
qed

text \<open>
  Claim C1. In \<open>run_forecast\<close>, when the primary model raises, the models of the
  category's fallback list are run in order and the first that succeeds ends the
  attempts: the result then names that model with the suffix (fallback), and its
  predictions (rounded to two decimals in the result, and scored as they are) are the
  output of that fallback model; the result is stored under the product and the year.
  When the primary and every fallback model raise, nothing is stored and the run fails
  with one error, status 500, whose detail enumerates the primary model and every
  fallback model with its name and the text of its own error.
\<close>

theorem fallback_order_and_failure_report:
  assumes "connected env" and "sales_data env (req_product req) = docs" and "docs \<noteq> []"
    and "select_model (resolve_category docs req) (req_model req) = Inr primary"
    and "model_runner libs docs req primary = Inl e0"
  shows "(get_fallback_list (resolve_category docs req) = pre @ fb # post
          \<and> list_all (\<lambda>f. isl (model_runner libs docs req f)) pre
          \<and> model_runner libs docs req fb = Inr preds \<longrightarrow>
            attempted (run_forecast libs env req) = primary # pre @ [fb]
          \<and> (\<exists>res. response (run_forecast libs env req) = Inr res
                \<and> model_used res = fb @ '' (fallback)''
                \<and> res_predicted res = map py_round2 preds
                \<and> (res_metrics res = None
                    \<or> res_metrics res = Some (calculate_metrics (res_actual res) preds))
                \<and> upserts (run_forecast libs env req)
                    = [((req_product req, req_year req), res)]))
       \<and> (list_all (\<lambda>f. isl (model_runner libs docs req f))
             (get_fallback_list (resolve_category docs req)) \<longrightarrow>
            attempted (run_forecast libs env req)
              = primary # get_fallback_list (resolve_category docs req)
          \<and> upserts (run_forecast libs env req) = []
          \<and> response (run_forecast libs env req)
              = Inl (HTTPException 500
                  (failure_detail primary e0
                     (map (\<lambda>f. (f, projl (model_runner libs docs req f)))
                        (get_fallback_list (resolve_category docs req)))))
          \<and> list_all (\<lambda>entry. sublist entry
                (failure_detail primary e0
                   (map (\<lambda>f. (f, projl (model_runner libs docs req f)))
                      (get_fallback_list (resolve_category docs req)))))
              ((''Primary '' @ primary @ '': '' @ py_str e0)
               # map (\<lambda>f. ''Fallback '' @ f @ '': ''
                             @ py_str (projl (model_runner libs docs req f)))
                   (get_fallback_list (resolve_category docs req))))"
proof -
  note selected = run_forecast_selected [OF assms(1-4), of libs]
  let ?run = "model_runner libs docs req"
  let ?fbs = "get_fallback_list (resolve_category docs req)"
  have success: "attempted (run_forecast libs env req) = primary # pre @ [fb]
          \<and> (\<exists>res. response (run_forecast libs env req) = Inr res
                \<and> model_used res = fb @ '' (fallback)''
                \<and> res_predicted res = map py_round2 preds
                \<and> (res_metrics res = None
                    \<or> res_metrics res = Some (calculate_metrics (res_actual res) preds))
                \<and> upserts (run_forecast libs env req)
                    = [((req_product req, req_year req), res)])"
    if "?fbs = pre @ fb # post" and "list_all (\<lambda>f. isl (?run f)) pre" and "?run fb = Inr preds"
  proof -
    have "run_with_fallback ?run primary ?fbs
        = (primary # pre @ [fb], Inr (fb @ '' (fallback)'', preds))"
      unfolding that(1) by (rule run_with_fallback_success [OF assms(5) that(2,3)])
    then show ?thesis
      unfolding selected by simp
  qed
  have failure: "attempted (run_forecast libs env req) = primary # ?fbs
          \<and> upserts (run_forecast libs env req) = []
          \<and> response (run_forecast libs env req)
              = Inl (HTTPException 500
                  (failure_detail primary e0 (map (\<lambda>f. (f, projl (?run f))) ?fbs)))
          \<and> list_all (\<lambda>entry. sublist entry
                (failure_detail primary e0 (map (\<lambda>f. (f, projl (?run f))) ?fbs)))
              ((''Primary '' @ primary @ '': '' @ py_str e0)
               # map (\<lambda>f. ''Fallback '' @ f @ '': '' @ py_str (projl (?run f))) ?fbs)"
    if "list_all (\<lambda>f. isl (?run f)) ?fbs"
  proof -
    have "run_with_fallback ?run primary ?fbs
        = (primary # ?fbs,
           Inl (HTTPException 500
             (failure_detail primary e0 (map (\<lambda>f. (f, projl (?run f))) ?fbs))))"
      unfolding failure_detail_def failure_entries_map
      by (rule run_with_fallback_all_fail [OF assms(5) that])
    then have "attempted (run_forecast libs env req) = primary # ?fbs
          \<and> upserts (run_forecast libs env req) = []
          \<and> response (run_forecast libs env req)
              = Inl (HTTPException 500
                  (failure_detail primary e0 (map (\<lambda>f. (f, projl (?run f))) ?fbs)))"
      unfolding selected by simp
    moreover have "list_all (\<lambda>entry. sublist entry
                (failure_detail primary e0 (map (\<lambda>f. (f, projl (?run f))) ?fbs)))
              ((''Primary '' @ primary @ '': '' @ py_str e0)
               # map (\<lambda>f. ''Fallback '' @ f @ '': '' @ py_str (projl (?run f))) ?fbs)"
      using failure_detail_contains [of primary e0 "map (\<lambda>f. (f, projl (?run f))) ?fbs"]
      unfolding failure_entries_map .
    ultimately show ?thesis by blast
  qed
  from success failure show ?thesis by blast
qed

lemma example_env_facts:
  "connected example_env"
  "sales_data example_env (req_product (example_request m y)) = year_2024_docs"
  "year_2024_docs \<noteq> []"
  by (simp_all add: example_env_def example_request_def year_2024_docs_def)

lemma example_select:
  "select_model (resolve_category year_2024_docs (example_request ''xgboost'' y))
     (req_model (example_request ''xgboost'' y)) = Inr ''xgboost''"
  "select_model (resolve_category year_2024_docs (example_request ''prophet'' y))
     (req_model (example_request ''prophet'' y)) = Inr ''prophet''"
  by (simp_all add: example_request_def select_model_def valid_models_def)

lemma py_round2_12: "py_round2 12 = 12"
  by (simp add: py_round2_def round_half_even_def)

theorem fallback_order_and_failure_report_witness:
  "connected example_env
   \<and> model_runner prophet_only_libs year_2024_docs (example_request ''xgboost'' 2025) ''xgboost''
       = Inl (ImportError ''xgboost package not installed. Run: pip install xgboost'')
   \<and> get_fallback_list (resolve_category year_2024_docs (example_request ''xgboost'' 2025))
       = [] @ ''prophet'' # [''xgboost'']
   \<and> model_runner prophet_only_libs year_2024_docs (example_request ''xgboost'' 2025) ''prophet''
       = Inr (replicate 12 12)
   \<and> attempted (run_forecast prophet_only_libs example_env (example_request ''xgboost'' 2025))
       = [''xgboost'', ''prophet'']
   \<and> (\<exists>res. response (run_forecast prophet_only_libs example_env (example_request ''xgboost'' 2025))
               = Inr res
             \<and> model_used res = ''prophet (fallback)''
             \<and> res_predicted res = replicate 12 12)
   \<and> attempted (run_forecast uninstalled_libs example_env (example_request ''prophet'' 2025))
       = [''prophet'', ''prophet'', ''xgboost'']
   \<and> response (run_forecast uninstalled_libs example_env (example_request ''prophet'' 2025))
       = Inl (HTTPException 500
           (''All models failed. Details: ''
            @ ''Primary prophet: prophet package not installed. Run: pip install prophet; ''
            @ ''Fallback prophet: prophet package not installed. Run: pip install prophet; ''
            @ ''Fallback xgboost: xgboost package not installed. Run: pip install xgboost''))"
proof -
  let ?ok = "example_request ''xgboost'' 2025"
  let ?bad = "example_request ''prophet'' 2025"
  have primary_ok: "model_runner prophet_only_libs year_2024_docs ?ok ''xgboost''
      = Inl (ImportError ''xgboost package not installed. Run: pip install xgboost'')"
    by (rule model_runner_xgboost_missing) (simp add: prophet_only_libs_def)
  have fbs_ok: "get_fallback_list (resolve_category year_2024_docs ?ok) = [] @ ''prophet'' # [''xgboost'']"
    by (simp add: example_category example_fallbacks)
  have fb_ok: "model_runner prophet_only_libs year_2024_docs ?ok ''prophet'' = Inr (replicate 12 12)"
    by (rule example_prophet_run) simp
  have pre_ok: "list_all (\<lambda>f. isl (model_runner prophet_only_libs year_2024_docs ?ok f)) []"
    by simp
  note first = fallback_order_and_failure_report [OF example_env_facts(1)
      example_env_facts(2) [of "''xgboost''" 2025] example_env_facts(3) example_select(1) primary_ok,
      where pre = "[]" and fb = "''prophet''" and post = "[''xgboost'']" and preds = "replicate 12 12"]
  from first fbs_ok fb_ok pre_ok
  have run_ok: "attempted (run_forecast prophet_only_libs example_env ?ok) = [''xgboost'', ''prophet'']
      \<and> (\<exists>res. response (run_forecast prophet_only_libs example_env ?ok) = Inr res
             \<and> model_used res = ''prophet (fallback)''
             \<and> res_predicted res = replicate 12 12)"
    by (auto simp: py_round2_12)
  have p_bad: "model_runner uninstalled_libs year_2024_docs ?bad ''prophet''
      = Inl (ImportError ''prophet package not installed. Run: pip install prophet'')"
    by (rule model_runner_prophet_missing) (simp add: uninstalled_libs_def)
  have x_bad: "model_runner uninstalled_libs year_2024_docs ?bad ''xgboost''
      = Inl (ImportError ''xgboost package not installed. Run: pip install xgboost'')"
    by (rule model_runner_xgboost_missing) (simp add: uninstalled_libs_def)
  have fbs_bad: "get_fallback_list (resolve_category year_2024_docs ?bad) = [''prophet'', ''xgboost'']"
    by (simp add: example_category example_fallbacks)
  have all_bad: "list_all (\<lambda>f. isl (model_runner uninstalled_libs year_2024_docs ?bad f))
      (get_fallback_list (resolve_category year_2024_docs ?bad))"
    unfolding fbs_bad by (simp add: p_bad x_bad)
  note second = fallback_order_and_failure_report [OF example_env_facts(1)
      example_env_facts(2) [of "''prophet''" 2025] example_env_facts(3) example_select(2) p_bad,
      where pre = "[]" and fb = "''prophet''" and post = "[]" and preds = "[]"]
  from second all_bad
  have "attempted (run_forecast uninstalled_libs example_env ?bad)
          = ''prophet'' # get_fallback_list (resolve_category year_2024_docs ?bad)
      \<and> response (run_forecast uninstalled_libs example_env ?bad)
          = Inl (HTTPException 500
              (failure_detail ''prophet''
                 (ImportError ''prophet package not installed. Run: pip install prophet'')
                 (map (\<lambda>f. (f, projl (model_runner uninstalled_libs year_2024_docs ?bad f)))
                    (get_fallback_list (resolve_category year_2024_docs ?bad)))))"
    by blast
  then have run_bad: "attempted (run_forecast uninstalled_libs example_env ?bad)
          = [''prophet'', ''prophet'', ''xgboost'']
      \<and> response (run_forecast uninstalled_libs example_env ?bad)
       = Inl (HTTPException 500
           (''All models failed. Details: ''
            @ ''Primary prophet: prophet package not installed. Run: pip install prophet; ''
            @ ''Fallback prophet: prophet package not installed. Run: pip install prophet; ''
            @ ''Fallback xgboost: xgboost package not installed. Run: pip install xgboost''))"
    unfolding fbs_bad
    by (simp add: p_bad x_bad failure_detail_def failure_entries_def)
  from example_env_facts(1) primary_ok fbs_ok fb_ok run_ok run_bad show ?thesis
    by blast
qed

text \<open>
  Claim C10. Every successful \<open>run_forecast\<close> invocation, whatever the requested target
  year, returns the twelve fixed month labels Jan-2025 to Dec-2025, while the actual
  values are those of the requested year and the result is stored under the product and
  the requested year.
\<close>

theorem month_labels_fixed:
  assumes "response (run_forecast libs env req) = Inr res"
  shows "months res = MONTH_LABELS
       \<and> months res = [''Jan-2025'', ''Feb-2025'', ''Mar-2025'', ''Apr-2025'', ''May-2025'',
            ''Jun-2025'', ''Jul-2025'', ''Aug-2025'', ''Sep-2025'', ''Oct-2025'', ''Nov-2025'',
            ''Dec-2025'']
       \<and> length (months res) = 12
       \<and> res_actual res = load_actual (sales_data env (req_product req)) (req_year req)
       \<and> upserts (run_forecast libs env req) = [((req_product req, req_year req), res)]"
  using assms
  by (auto simp: run_forecast_def Let_def split_beta MONTH_LABELS_def
      split: if_splits sum.splits prod.splits)

theorem month_labels_fixed_witness:
  "(\<exists>res. response (run_forecast prophet_only_libs example_env (example_request ''prophet'' 2030))
            = Inr res
          \<and> months res = [''Jan-2025'', ''Feb-2025'', ''Mar-2025'', ''Apr-2025'', ''May-2025'',
               ''Jun-2025'', ''Jul-2025'', ''Aug-2025'', ''Sep-2025'', ''Oct-2025'', ''Nov-2025'',
               ''Dec-2025'']
          \<and> upserts (run_forecast prophet_only_libs example_env (example_request ''prophet'' 2030))
              = [((''Cefspan'', 2030), res)])"
proof -
  let ?req = "example_request ''prophet'' 2030"
  have run: "model_runner prophet_only_libs year_2024_docs ?req ''prophet'' = Inr (replicate 12 12)"
    by (rule example_prophet_run) simp
  have "run_with_fallback (model_runner prophet_only_libs year_2024_docs ?req) ''prophet''
          (get_fallback_list (resolve_category year_2024_docs ?req))
      = ([''prophet''], Inr (''prophet'', replicate 12 12))"
    by (simp add: run_with_fallback_def run)
  then obtain res where res: "response (run_forecast prophet_only_libs example_env ?req) = Inr res"
    unfolding run_forecast_selected [OF example_env_facts(1)
        example_env_facts(2) [of "''prophet''" 2030] example_env_facts(3) example_select(2)]
    by simp
  from month_labels_fixed [OF res] res show ?thesis
    by (auto simp: example_request_def)
qed

section \<open>Model selection in the orchestrator\<close>

lemma select_model_auto:
  "override = ''auto'' \<or> override = [] \<Longrightarrow>
   select_model c override
     = Inr (if get_category_type c = ''antibiotic'' then ''sarimax''
            else if get_category_type c = ''gastro'' then ''prophet''
            else if get_category_type c = ''acute'' then ''xgboost''
            else if get_category_type c = ''chronic'' then ''prophet''
            else ''xgboost'')"
  using get_category_type_range [of c]
  by (auto simp: select_model_def dict_get_def TYPE_MODEL_MAP_def)

lemma run_forecast_invalid_model:
  assumes "connected env" and "sales_data env (req_product req) \<noteq> []"
    and "select_model (resolve_category (sales_data env (req_product req)) req) (req_model req) = Inl e"
  shows "run_forecast libs env req = \<lparr>attempted = [], upserts = [], response = Inl e\<rparr>"
  using assms by (simp add: run_forecast_def Let_def split_beta)

text \<open>
  Claim C5, as stated: every call with a model name other than auto returns the name if
  it is one of prophet, xgboost, sarimax, hybrid, and raises if it is not. It fails for
  the empty name: it is not auto and not in the closed set, yet the guard of
  \<open>select_model\<close> treats it like auto and the category's model is returned.
\<close>

theorem select_model_empty_counterexample:
  "[] \<noteq> ''auto''
   \<and> [] \<notin> set valid_models
   \<and> select_model ''Cefixime'' [] = Inr ''sarimax''"
proof -
  have "get_category_type ''Cefixime'' = ''antibiotic''"
    unfolding get_category_type_lookup py_lower_Cefixime
    by (simp add: dict_get_def CATEGORY_TYPE_MAP_def)
  then have "select_model ''Cefixime'' [] = Inr ''sarimax''"
    using select_model_auto [of "[]" "''Cefixime''"] by simp
  then show ?thesis by (simp add: valid_models_def)
qed

text \<open>
  Claim C5, amended. For every call with a non-empty model name other than auto,
  \<open>select_model\<close> returns that name verbatim if it belongs to the closed set of prophet,
  xgboost, sarimax and hybrid, and raises an error if it does not; in \<open>run_forecast\<close>
  that error ends the invocation before any model is run or stored. For auto, and for
  an empty name, the model is resolved by the fixed table: antibiotic to sarimax, gastro
  to prophet, acute to xgboost, chronic to prophet, other to xgboost.
\<close>

theorem select_model_contract:
  "(override \<noteq> [] \<and> override \<noteq> ''auto'' \<and> override \<in> set valid_models \<longrightarrow>
      select_model c override = Inr override)
   \<and> (override \<noteq> [] \<and> override \<noteq> ''auto'' \<and> override \<notin> set valid_models \<longrightarrow>
        select_model c override = Inl (ValueError (invalid_override_message override))
      \<and> (connected env \<and> sales_data env (req_product req) \<noteq> [] \<and> req_model req = override \<longrightarrow>
           run_forecast libs env req
             = \<lparr>attempted = [], upserts = [],
                response = Inl (ValueError (invalid_override_message override))\<rparr>))
   \<and> set valid_models = {''prophet'', ''xgboost'', ''sarimax'', ''hybrid''}
   \<and> (override = ''auto'' \<or> override = [] \<longrightarrow>
        select_model c override
          = Inr (if get_category_type c = ''antibiotic'' then ''sarimax''
                 else if get_category_type c = ''gastro'' then ''prophet''
                 else if get_category_type c = ''acute'' then ''xgboost''
                 else if get_category_type c = ''chronic'' then ''prophet''
                 else ''xgboost''))"
proof -
  have valid: "override \<noteq> [] \<and> override \<noteq> ''auto'' \<and> override \<in> set valid_models \<longrightarrow>
      select_model c override = Inr override"
    by (simp add: select_model_def)
  have invalid: "select_model c' override = Inl (ValueError (invalid_override_message override))"
    if "override \<noteq> [] \<and> override \<noteq> ''auto'' \<and> override \<notin> set valid_models" for c'
    using that by (simp add: select_model_def)
  have stops: "run_forecast libs env req
             = \<lparr>attempted = [], upserts = [],
                response = Inl (ValueError (invalid_override_message override))\<rparr>"
    if "override \<noteq> [] \<and> override \<noteq> ''auto'' \<and> override \<notin> set valid_models"
      and "connected env \<and> sales_data env (req_product req) \<noteq> [] \<and> req_model req = override"
    using that(2) invalid [OF that(1)]
    by (intro run_forecast_invalid_model) simp_all
  have closed_set: "set valid_models = {''prophet'', ''xgboost'', ''sarimax'', ''hybrid''}"
    by (simp add: valid_models_def)
  from valid invalid stops closed_set select_model_auto [of override c]
  show ?thesis by blast
qed

theorem select_model_contract_witness:
  "''hybrid'' \<noteq> [] \<and> ''hybrid'' \<noteq> ''auto'' \<and> ''hybrid'' \<in> set valid_models
   \<and> select_model ''Cefixime'' ''hybrid'' = Inr ''hybrid''
   \<and> ''lstm'' \<noteq> [] \<and> ''lstm'' \<noteq> ''auto'' \<and> ''lstm'' \<notin> set valid_models
   \<and> select_model ''Cefixime'' ''lstm'' = Inl (ValueError (invalid_override_message ''lstm''))
   \<and> connected example_env
   \<and> run_forecast prophet_only_libs example_env (example_request ''lstm'' 2025)
       = \<lparr>attempted = [], upserts = [],
          response = Inl (ValueError (invalid_override_message ''lstm''))\<rparr>
   \<and> select_model ''Cefixime'' ''auto'' = Inr ''sarimax''"
proof -
  have cat: "get_category_type ''Cefixime'' = ''antibiotic''"
    unfolding get_category_type_lookup py_lower_Cefixime
    by (simp add: dict_get_def CATEGORY_TYPE_MAP_def)
  have h1: "''hybrid'' \<noteq> [] \<and> ''hybrid'' \<noteq> ''auto'' \<and> ''hybrid'' \<in> set valid_models"
    by (simp add: valid_models_def)
  have h2: "''lstm'' \<noteq> [] \<and> ''lstm'' \<noteq> ''auto'' \<and> ''lstm'' \<notin> set valid_models"
    by (simp add: valid_models_def)
  have h3: "connected example_env
      \<and> sales_data example_env (req_product (example_request ''lstm'' 2025)) \<noteq> []
      \<and> req_model (example_request ''lstm'' 2025) = ''lstm''"
    by (simp add: example_env_def example_request_def year_2024_docs_def)
  note a = select_model_contract [where override = "''hybrid''" and c = "''Cefixime''"]
  note b = select_model_contract [where override = "''lstm''" and c = "''Cefixime''"
      and env = example_env and req = "example_request ''lstm'' 2025" and libs = prophet_only_libs]
  note c = select_model_contract [where override = "''auto''" and c = "''Cefixime''"]
  have r1: "select_model ''Cefixime'' ''hybrid'' = Inr ''hybrid''"
    using a h1 by blast
  have r2: "select_model ''Cefixime'' ''lstm'' = Inl (ValueError (invalid_override_message ''lstm''))"
    using b h2 by blast
  have r3: "run_forecast prophet_only_libs example_env (example_request ''lstm'' 2025)
       = \<lparr>attempted = [], upserts = [],
          response = Inl (ValueError (invalid_override_message ''lstm''))\<rparr>"
    using b h2 h3 by blast
  have r4: "select_model ''Cefixime'' ''auto'' = Inr ''sarimax''"
    using c cat by simp
  from h1 h2 h3 r1 r2 r3 r4 show ?thesis by blast
qed

section \<open>The forecast horizon of the adapters\<close>

text \<open>What the adapters share: a failed threshold check comes before any library
  call, and every returned prediction is clipped at 0.\<close>

lemma clip0_nonneg: "list_all (\<lambda>p. 0 \<le> p) (clip0 ps)"
  by (simp add: clip0_def list_all_iff)

lemma length_known_rows: "length (known_rows ds ys) \<le> length ds"
proof (induction ds ys rule: known_rows.induct)
  case (1 d ds y ys)
  then show ?case by (cases y) (simp_all add: le_SucI)
qed simp_all

lemma known_rows_dates: "set (map fst (known_rows ds ys)) \<subseteq> set ds"
  by (induction ds ys rule: known_rows.induct) (auto split: option.splits)

lemma prophet_insufficient:
  assumes "prophet_installed libs"
    and "df_get df ''units_sold'' = Inr units"
    and "length (filter (\<lambda>d. d_year d < y) (dates df)) < 12"
  shows "\<exists>n. n < 12 \<and> train_and_predict_prophet libs df y = ([], Inl (ValueError (insufficient_message n 12)))"
proof -
  let ?rows = "known_rows (filter (\<lambda>d. d_year d < y) (dates df)) (select_rows (year_mask df y) units)"
  have "length ?rows < 12"
    using length_known_rows [of "filter (\<lambda>d. d_year d < y) (dates df)"] assms(3)
    by (meson le_less_trans)
  then show ?thesis
    using assms(1,2)
    by (auto simp: train_and_predict_prophet_def Let_def df_get_filter dates_year_filter)
qed

lemma prophet_success:
  assumes "train_and_predict_prophet libs df y = (calls, Inr (preds, m))"
  shows "\<exists>rows yhat. calls = [ProphetFit rows, ProphetPredict (year_months y)]
           \<and> list_all (\<lambda>(d, v). d_year d < y) rows
           \<and> 12 \<le> length rows
           \<and> prophet_predict libs m (year_months y) = Inr yhat
           \<and> preds = clip0 yhat
           \<and> list_all (\<lambda>p. 0 \<le> p) preds"
proof -
  have dates_ok: "list_all (\<lambda>(d, v). d_year d < y)
      (known_rows (filter (\<lambda>d. d_year d < y) (dates df)) ys)" for ys
    using known_rows_dates [of "filter (\<lambda>d. d_year d < y) (dates df)" ys]
    by (auto simp: list_all_iff)
  show ?thesis
    using assms dates_ok
    by (auto simp: train_and_predict_prophet_def Let_def df_get_filter dates_year_filter
        clip0_nonneg split: if_splits sum.splits)
qed

lemma length_select_rows: "length (select_rows sel xs) \<le> length xs"
proof -
  have "length (filter fst (zip sel xs)) \<le> length (zip sel xs)"
    by (rule length_filter_le)
  then show ?thesis
    by (simp add: select_rows_def)
qed

lemma xgboost_insufficient:
  assumes "xgboost_installed libs"
    and "dropna_subset (df_filter (year_mask df y) df) (feature_cols @ [''units_sold'']) = Inr train"
    and "length (filter (\<lambda>d. d_year d < y) (dates df)) < 12"
  shows "\<exists>n. n < 12 \<and> train_and_predict_xgboost libs df feature_cols y fut
           = ([], Inl (ValueError (insufficient_message n 12)))"
proof -
  from assms(2) obtain sel where "train = df_filter sel (df_filter (year_mask df y) df)"
    by (auto simp: dropna_subset_def split: sum.splits)
  then have "df_len train \<le> length (filter (\<lambda>d. d_year d < y) (dates df))"
    using length_select_rows [of sel "dates (df_filter (year_mask df y) df)"]
    by (simp add: df_len_def df_filter_def dates_year_filter [unfolded df_filter_def, simplified])
  with assms(3) have "df_len train < 12" by simp
  then show ?thesis
    using assms(1,2)
    by (auto simp: train_and_predict_xgboost_def Let_def)
qed

lemma sarimax_success_calls:
  assumes "train_and_predict_sarimax libs df y exog_cols fut = (calls, Inr (preds, m))"
  shows "\<exists>fits xf. calls = fits @ [SarimaxForecast 12 xf] \<and> list_all (\<lambda>p. 0 \<le> p) preds"
  using assms
  by (auto simp: train_and_predict_sarimax_def sarimax_predict_def Let_def clip0_nonneg
      split: if_splits sum.splits)

text \<open>The dates of the future feature frame that \<open>run_forecast\<close> hands to the
  gradient-boosted and blended adapters: the twelve months after the last training
  date.\<close>

lemma fr_date_make_future_row: "fr_date (make_future_row n ext i dt h) = dt"
  by (simp add: make_future_row_def Let_def)

lemma prepare_frames_future_dates:
  "dates (snd (snd (prepare_frames docs cat y)))
     = future_dates
         (let train_dates = filter (\<lambda>d. d_year d < y)
                              (map doc_date (sort_key (\<lambda>r. date_key (doc_date r)) docs))
          in if train_dates \<noteq> [] then max_date train_dates
             else \<lparr>d_year = y - 1, d_month = 12, d_day = 1\<rparr>) 12"
proof -
  have rows: "map fr_date (build_future_features last_date 12 cat lkv None)
      = future_dates last_date 12" for last_date lkv
    by (simp add: build_future_features_rows future_dates_def fr_date_make_future_row comp_def)
  show ?thesis
    by (simp add: prepare_frames_def Let_def split_beta frame_of_rows_def rows df_len_def
        dates_year_filter build_features_dates)
qed

text \<open>Example input: the 24 monthly documents of 2023 and 2024.\<close>

definition two_year_docs :: "sales_doc list" where
  "two_year_docs = map (\<lambda>i. month_doc (2023 + int (i div 12)) (i mod 12 + 1) (of_nat (i + 1))) [0..<24]"

lemma two_year_future_dates:
  "future_dates
     (let train_dates = filter (\<lambda>d. d_year d < 2026)
                          (map doc_date (sort_key (\<lambda>r. date_key (doc_date r)) two_year_docs))
      in if train_dates \<noteq> [] then max_date train_dates
         else \<lparr>d_year = 2026 - 1, d_month = 12, d_day = 1\<rparr>) 12
     = year_months 2025"
  by code_simp

lemma two_years_2026_units: "df_get (sarimax_train two_years 2026) ''units_sold'' = Inr two_years_units"
  by code_simp

lemma two_years_2026_last: "fst (last (sarimax_y_train two_years 2026 two_years_units))
     = \<lparr>d_year = 2024, d_month = 12, d_day = 1\<rparr>"
  by code_simp

lemma two_years_2026_run:
  "train_and_predict_sarimax naive_libs two_years 2026 None None
     = ([SarimaxFit default_order (sarimax_y_train two_years 2026 two_years_units) None,
         SarimaxFit simple_order (sarimax_y_train two_years 2026 two_years_units) None,
         SarimaxForecast 12 None],
        Inr (replicate 12 24, 24))"
  by code_simp

text \<open>
  Claim C8 at a history that ends before the December preceding the target year: 24
  monthly rows of 2023 and 2024, target year 2026. The seasonal-autoregressive adapter
  trains on all 24 rows (their years are below 2026) and returns 12 non-negative
  predictions, but its only forecast call asks for the 12 steps that follow the training
  series, whose last row is December 2024: no date of 2026 enters a library call, and
  the values are the forecast of 2025. On the same history \<open>run_forecast\<close> builds the
  future feature frame of the gradient-boosted and blended adapters for the twelve
  months of 2025 as well. The trend-seasonal adapter asks for the months of 2026.
\<close>

theorem horizon_follows_history_not_target_year:
  "train_and_predict_sarimax naive_libs two_years 2026 None None
     = ([SarimaxFit default_order (sarimax_y_train two_years 2026 two_years_units) None,
         SarimaxFit simple_order (sarimax_y_train two_years 2026 two_years_units) None,
         SarimaxForecast 12 None],
        Inr (replicate 12 24, 24))
   \<and> fst (last (sarimax_y_train two_years 2026 two_years_units))
       = \<lparr>d_year = 2024, d_month = 12, d_day = 1\<rparr>
   \<and> dates (snd (snd (prepare_frames two_year_docs ''Cefixime'' 2026))) = year_months 2025
   \<and> year_months 2025 \<noteq> year_months 2026"
proof -
  have future: "dates (snd (snd (prepare_frames two_year_docs ''Cefixime'' 2026))) = year_months 2025"
    unfolding prepare_frames_future_dates by (rule two_year_future_dates)
  have differ: "year_months 2025 \<noteq> year_months 2026"
    by (simp add: year_months_def upt_conv_Cons)
  from two_years_2026_run two_years_2026_last future differ show ?thesis
    by blast
qed

end
